theory Spec2Isabelle
  imports Complex_Main
begin

section \<open>Mean-reversion backtest (MRS v2.5): the program as HOL functions\<close>

text \<open>
  The script \<^verbatim>\<open>MRS v2.5.py\<close> works on pandas columns of 64-bit floats. The
  embedding reads a column as a list, a float as a real number and the float NaN as
  \<open>None\<close> in a column of \<open>real option\<close>. Only the columns that can hold NaN are optional:
  the exponentially weighted standard deviation (NaN on the first row) and the rolling
  volatility (NaN on the first nine rows). A comparison with NaN is false, as in numpy.
  Dates are day numbers.

  A float division by zero raises nothing in numpy (the quotient is an infinity or NaN),
  while \<open>x / 0 = 0\<close> in HOL. The script divides by a close (the returns and the
  percentage of a trade), by the running maximum of the equity, and by the entry
  threshold (dynamic sizing); the closes and the equity are positive, and every property
  below about the values of dynamically sized positions assumes a positive entry
  threshold.
\<close>

subsection \<open>Global settings (lines 14 to 17)\<close>

definition initial_capital :: real where
  "initial_capital = 10000"

definition cost_per_trade :: real where
  "cost_per_trade = 1 / 1000"

definition stop_loss :: real where
  "stop_loss = - (3 / 100)"

definition take_profit :: real where
  "take_profit = 5 / 100"

subsection \<open>The data frame (lines 34 to 36)\<close>

record row =
  Date :: int
  Close :: real
  returns :: real

text \<open>
  \<^verbatim>\<open>df['returns'] = df['Close'].pct_change(); df = df.dropna()\<close>: every row but the first
  gets the relative change of the close, and the first row (whose change is NaN) is dropped.
\<close>

fun pct_rows :: "int \<times> real \<Rightarrow> (int \<times> real) list \<Rightarrow> row list" where
  "pct_rows prev [] = []"
| "pct_rows prev (cur # rest) =
     \<lparr>Date = fst cur, Close = snd cur, returns = snd cur / snd prev - 1\<rparr> # pct_rows cur rest"

definition load_df :: "(int \<times> real) list \<Rightarrow> row list" where
  "load_df raw = (case raw of [] \<Rightarrow> [] | first # rest \<Rightarrow> pct_rows first rest)"

subsection \<open>pandas and numpy column operations used by the strategy\<close>

text \<open>
  \<^verbatim>\<open>ewm(span=window, adjust=False)\<close>: the smoothing factor is \<open>2 / (span + 1)\<close>; the mean
  starts at the first observation and then is \<open>(1 - a) * mean + a * x\<close>.
\<close>

definition ewm_alpha :: "int \<Rightarrow> real" where
  "ewm_alpha window = 2 / (real_of_int window + 1)"

fun ewm_mean_from :: "real \<Rightarrow> real \<Rightarrow> real list \<Rightarrow> real list" where
  "ewm_mean_from a m [] = []"
| "ewm_mean_from a m (x # xs) =
     (let m' = (1 - a) * m + a * x in m' # ewm_mean_from a m' xs)"

definition ewm_mean :: "real \<Rightarrow> real list \<Rightarrow> real list" where
  "ewm_mean a xs = (case xs of [] \<Rightarrow> [] | x # rest \<Rightarrow> x # ewm_mean_from a x rest)"

text \<open>
  \<^verbatim>\<open>ewm(span=window, adjust=False).std()\<close> (bias=False): pandas carries the weighted mean,
  the biased weighted variance \<open>cov\<close> and the sum of the squared normalised weights
  \<open>s2\<close>; the result is \<open>cov / (1 - s2)\<close> when \<open>1 - s2 > 0\<close> and NaN otherwise, and NaN on the
  first row. The standard deviation is its square root.
\<close>

fun ewm_var_from :: "real \<Rightarrow> real \<Rightarrow> real \<Rightarrow> real \<Rightarrow> real list \<Rightarrow> real option list" where
  "ewm_var_from a m cov s2 [] = []"
| "ewm_var_from a m cov s2 (x # xs) =
     (let m' = (1 - a) * m + a * x;
          cov' = (1 - a) * (cov + (m - m')\<^sup>2) + a * (x - m')\<^sup>2;
          s2' = (1 - a)\<^sup>2 * s2 + a\<^sup>2
      in (if 1 - s2' > 0 then Some (cov' / (1 - s2')) else None)
           # ewm_var_from a m' cov' s2' xs)"

definition ewm_var :: "real \<Rightarrow> real list \<Rightarrow> real option list" where
  "ewm_var a xs = (case xs of [] \<Rightarrow> [] | x # rest \<Rightarrow> None # ewm_var_from a x 0 1 rest)"

definition ewm_std :: "real \<Rightarrow> real list \<Rightarrow> real option list" where
  "ewm_std a xs = map (map_option sqrt) (ewm_var a xs)"

text \<open>Sample variance with one degree of freedom removed (pandas' default \<open>ddof=1\<close>).\<close>

definition mean_of :: "real list \<Rightarrow> real" where
  "mean_of xs = sum_list xs / real (length xs)"

definition sample_var :: "real list \<Rightarrow> real" where
  "sample_var xs = sum_list (map (\<lambda>x. (x - mean_of xs)\<^sup>2) xs) / (real (length xs) - 1)"

text \<open>
  \<^verbatim>\<open>rolling(w).std()\<close>: NaN until \<open>w\<close> observations are in the window, then the sample
  standard deviation of the last \<open>w\<close> values.
\<close>

definition rolling_std :: "nat \<Rightarrow> real list \<Rightarrow> real option list" where
  "rolling_std w xs =
     map (\<lambda>i. if i + 1 < w then None
              else Some (sqrt (sample_var (take w (drop (i + 1 - w) xs)))))
         [0..<length xs]"

text \<open>
  \<^verbatim>\<open>Series.quantile(q)\<close>: NaN entries are skipped; the quantile is read at position
  \<open>q * (n - 1)\<close> of the sorted values, interpolating linearly between neighbours; NaN when
  no value is left.
\<close>

definition quantile :: "real \<Rightarrow> real option list \<Rightarrow> real option" where
  "quantile q col =
     (let vs = sort (List.map_filter id col) in
      if vs = [] then None
      else let pos = q * real (length vs - 1);
               lo = nat \<lfloor>pos\<rfloor>;
               frac = pos - real lo
           in if lo + 1 < length vs
              then Some (vs ! lo + frac * (vs ! (lo + 1) - vs ! lo))
              else Some (vs ! lo))"

text \<open>\<open>a > b\<close> on floats: false when either side is NaN.\<close>

fun gt_nan :: "real option \<Rightarrow> real option \<Rightarrow> bool" where
  "gt_nan (Some a) (Some b) = (a > b)"
| "gt_nan _ _ = False"

text \<open>\<^verbatim>\<open>np.clip(x, lo, hi)\<close>.\<close>

definition clip :: "real \<Rightarrow> real \<Rightarrow> real \<Rightarrow> real" where
  "clip x lo hi = min (max x lo) hi"

text \<open>\<^verbatim>\<open>shift(1).fillna(0)\<close>: every value moves one row down, the first row gets 0.\<close>

fun shift_from :: "real \<Rightarrow> real list \<Rightarrow> real list" where
  "shift_from p [] = []"
| "shift_from p (x # xs) = p # shift_from x xs"

definition shift_fill :: "real list \<Rightarrow> real list" where
  "shift_fill xs = shift_from 0 xs"

text \<open>\<^verbatim>\<open>diff().fillna(0)\<close>: the change from the previous row, 0 on the first row.\<close>

fun diff_from :: "real \<Rightarrow> real list \<Rightarrow> real list" where
  "diff_from p [] = []"
| "diff_from p (x # xs) = (x - p) # diff_from x xs"

definition diff_fill :: "real list \<Rightarrow> real list" where
  "diff_fill xs = (case xs of [] \<Rightarrow> [] | x # rest \<Rightarrow> 0 # diff_from x rest)"

text \<open>\<^verbatim>\<open>cumprod()\<close> and \<^verbatim>\<open>cummax()\<close>.\<close>

fun cumprod_from :: "real \<Rightarrow> real list \<Rightarrow> real list" where
  "cumprod_from acc [] = []"
| "cumprod_from acc (x # xs) = (acc * x) # cumprod_from (acc * x) xs"

definition cumprod :: "real list \<Rightarrow> real list" where
  "cumprod xs = cumprod_from 1 xs"

fun cummax_from :: "real \<Rightarrow> real list \<Rightarrow> real list" where
  "cummax_from acc [] = []"
| "cummax_from acc (x # xs) = max acc x # cummax_from (max acc x) xs"

definition cummax :: "real list \<Rightarrow> real list" where
  "cummax xs = (case xs of [] \<Rightarrow> [] | x # rest \<Rightarrow> x # cummax_from x rest)"

text \<open>\<^verbatim>\<open>Series.std()\<close>: NaN with fewer than two observations.\<close>

definition series_std :: "real list \<Rightarrow> real option" where
  "series_std xs = (if length xs < 2 then None else Some (sqrt (sample_var xs)))"

subsection \<open>The strategy function, column by column (lines 56 to 102)\<close>

text \<open>Lines 62 to 64: \<^verbatim>\<open>np.where(std > 0, (Close - mean) / std, 0)\<close>.\<close>

fun z_score_of :: "real \<Rightarrow> real \<Rightarrow> real option \<Rightarrow> real" where
  "z_score_of c m None = 0"
| "z_score_of c m (Some s) = (if s > 0 then (c - m) / s else 0)"

definition z_score_raw :: "real list \<Rightarrow> real list \<Rightarrow> real option list \<Rightarrow> real list" where
  "z_score_raw closes means stds = map (\<lambda>(c, m, s). z_score_of c m s) (zip closes (zip means stds))"

text \<open>
  Lines 67 to 70: the ten-day rolling volatility of the returns, its 0.9 quantile over the
  whole column, and the z-score set to 0 on every row whose volatility exceeds it.
\<close>

definition volatility :: "real list \<Rightarrow> real option list" where
  "volatility rets = rolling_std 10 rets"

definition vol_threshold :: "real list \<Rightarrow> real option" where
  "vol_threshold rets = quantile (9 / 10) (volatility rets)"

definition vol_filter :: "real list \<Rightarrow> real list \<Rightarrow> real list" where
  "vol_filter rets zs =
     map (\<lambda>(v, z). if gt_nan v (vol_threshold rets) then 0 else z) (zip (volatility rets) zs)"

definition z_score_col :: "row list \<Rightarrow> int \<Rightarrow> bool \<Rightarrow> real list" where
  "z_score_col df window filter_vol =
     (let closes = map Close df;
          zs = z_score_raw closes (ewm_mean (ewm_alpha window) closes)
                                  (ewm_std (ewm_alpha window) closes)
      in if filter_vol then vol_filter (map returns df) zs else zs)"

text \<open>
  Lines 73 to 76: the signal column starts at 0 and is overwritten by three masked
  assignments, in this order.
\<close>

definition signal_of :: "real \<Rightarrow> real \<Rightarrow> real \<Rightarrow> int" where
  "signal_of z_entry z_exit z =
     (let s0 = 0;
          s1 = (if z < - z_entry then 1 else s0);
          s2 = (if z > z_entry then - 1 else s1);
          s3 = (if \<bar>z\<bar> < z_exit then 0 else s2)
      in s3)"

definition signal_col :: "real \<Rightarrow> real \<Rightarrow> real list \<Rightarrow> int list" where
  "signal_col z_entry z_exit zs = map (signal_of z_entry z_exit) zs"

text \<open>
  Line 79: \<^verbatim>\<open>signal.replace(0, method='ffill').fillna(0)\<close>. Every 0 of the signal column
  is replaced by the last value before it that is not 0; a 0 with no such value before it
  stays 0. The column holds no NaN, so \<^verbatim>\<open>fillna(0)\<close> changes nothing.
\<close>

fun ffill_zero :: "int \<Rightarrow> int list \<Rightarrow> int list" where
  "ffill_zero held [] = []"
| "ffill_zero held (s # ss) =
     (let held' = (if s = 0 then held else s) in held' # ffill_zero held' ss)"

definition held_col :: "int list \<Rightarrow> int list" where
  "held_col sig = ffill_zero 0 sig"

text \<open>
  Lines 82 to 84: with dynamic sizing the position is the sign of the held position times
  the size \<^verbatim>\<open>abs(np.clip(-z_score / z_entry, -1, 1))\<close>.
\<close>

definition position_size :: "real \<Rightarrow> real \<Rightarrow> real" where
  "position_size z_entry z = clip (- z / z_entry) (- 1) 1"

definition position_col :: "real \<Rightarrow> real \<Rightarrow> bool \<Rightarrow> real list \<Rightarrow> real list" where
  "position_col z_entry z_exit dynamic_position zs =
     (let held = map real_of_int (held_col (signal_col z_entry z_exit zs))
      in if dynamic_position
         then map (\<lambda>(p, z). sgn p * \<bar>position_size z_entry z\<bar>) (zip held zs)
         else held)"

text \<open>Lines 87 to 96: lagged position, clipped return, trading cost, net return.\<close>

definition strategy_clipped_col :: "real list \<Rightarrow> real list \<Rightarrow> real list" where
  "strategy_clipped_col position_lag rets =
     map (\<lambda>(l, r). clip (l * r) stop_loss take_profit) (zip position_lag rets)"

definition trade_cost_col :: "real list \<Rightarrow> real list" where
  "trade_cost_col position = map (\<lambda>d. cost_per_trade * \<bar>d\<bar>) (diff_fill position)"

definition net_of :: "real list \<Rightarrow> real list \<Rightarrow> real list" where
  "net_of clipped costs = map (\<lambda>(c, t). c - t) (zip clipped costs)"

text \<open>
  The net return for a given lagged-position column, and the strategy's own, whose lag is
  the position column shifted by one row (line 87).
\<close>

definition net_with_lag :: "real list \<Rightarrow> real list \<Rightarrow> real list \<Rightarrow> real list" where
  "net_with_lag position_lag position rets =
     net_of (strategy_clipped_col position_lag rets) (trade_cost_col position)"

definition strategy_net_col :: "real list \<Rightarrow> real list \<Rightarrow> real list" where
  "strategy_net_col position rets = net_with_lag (shift_fill position) position rets"

text \<open>Lines 99 and 102: the two equity curves.\<close>

definition curve_of :: "real list \<Rightarrow> real list" where
  "curve_of rs = map (\<lambda>p. initial_capital * p) (cumprod (map (\<lambda>r. 1 + r) rs))"

definition equity_curve_col :: "real list \<Rightarrow> real list \<Rightarrow> real list" where
  "equity_curve_col position rets = curve_of (strategy_net_col position rets)"

definition buy_hold_curve_col :: "real list \<Rightarrow> real list" where
  "buy_hold_curve_col rets = curve_of rets"

text \<open>
  The frame the function returns under \<^verbatim>\<open>'data'\<close>: the rows of \<^verbatim>\<open>df\<close> and the computed
  columns that the rest of the script reads.
\<close>

record frame =
  rows :: "row list"
  z_score :: "real list"
  signal :: "int list"
  position :: "real list"
  strategy_net :: "real list"
  equity_curve :: "real list"
  buy_hold_curve :: "real list"

definition backtest_data :: "row list \<Rightarrow> int \<Rightarrow> real \<Rightarrow> real \<Rightarrow> bool \<Rightarrow> bool \<Rightarrow> frame" where
  "backtest_data df window z_entry z_exit dynamic_position filter_vol =
     (let zs = z_score_col df window filter_vol;
          pos = position_col z_entry z_exit dynamic_position zs;
          rets = map returns df
      in \<lparr>rows = df,
          z_score = zs,
          signal = signal_col z_entry z_exit zs,
          position = pos,
          strategy_net = strategy_net_col pos rets,
          equity_curve = equity_curve_col pos rets,
          buy_hold_curve = buy_hold_curve_col rets\<rparr>)"

subsection \<open>Performance metrics and the result (lines 105 to 136)\<close>

fun min_from :: "real \<Rightarrow> real list \<Rightarrow> real" where
  "min_from m [] = m"
| "min_from m (x # xs) = min_from (min m x) xs"

definition drawdown_col :: "real list \<Rightarrow> real list" where
  "drawdown_col eq = map (\<lambda>(e, c). (e - c) / c) (zip eq (cummax eq))"

definition sharpe_of :: "real list \<Rightarrow> real" where
  "sharpe_of net =
     (if gt_nan (series_std net) (Some 0)
      then sqrt 252 * mean_of net / the (series_std net)
      else 0)"

definition win_rate_of :: "real list \<Rightarrow> real" where
  "win_rate_of net =
     (let winning_days = length (filter (\<lambda>x. x > 0) net);
          losing_days = length (filter (\<lambda>x. x < 0) net)
      in if winning_days + losing_days > 0
         then real winning_days / real (winning_days + losing_days) * 100
         else 0)"

record result =
  total_return :: real
  cagr :: real
  sharpe :: real
  max_drawdown :: real
  win_rate :: real
  final_value :: real
  data :: frame

text \<open>
  The two ways the function raises: pandas refuses \<^verbatim>\<open>ewm(span=window)\<close> with a span
  below 1 (\<^verbatim>\<open>ValueError\<close>, line 58), and \<^verbatim>\<open>iloc[-1]\<close> on an empty column raises
  \<^verbatim>\<open>IndexError\<close> (line 105). The power of line 110 is taken on a positive base.
\<close>

datatype error = ValueError | IndexError

definition backtest_mean_reversion ::
  "row list \<Rightarrow> int \<Rightarrow> real \<Rightarrow> real \<Rightarrow> bool \<Rightarrow> bool \<Rightarrow> error + result" where
  "backtest_mean_reversion df window z_entry z_exit dynamic_position filter_vol =
     (if window < 1 then Inl ValueError
      else let d = backtest_data df window z_entry z_exit dynamic_position filter_vol in
        case rev (equity_curve d) of
          [] \<Rightarrow> Inl IndexError
        | fv # _ \<Rightarrow>
            let years = real (length (rows d)) / 252 in
            Inr \<lparr>total_return = (fv / initial_capital - 1) * 100,
                 cagr = (if years > 0
                         then ((fv / initial_capital) powr (1 / years) - 1) * 100
                         else 0),
                 sharpe = sharpe_of (strategy_net d),
                 max_drawdown =
                   (case drawdown_col (equity_curve d) of
                      [] \<Rightarrow> 0
                    | x # xs \<Rightarrow> min_from x xs * 100),
                 win_rate = win_rate_of (strategy_net d),
                 final_value = fv,
                 data = d\<rparr>)"

subsection \<open>Parameter grid search (lines 139 to 161)\<close>

definition windows :: "int list" where
  "windows = [10, 20, 30, 50]"

definition z_entries :: "real list" where
  "z_entries = [1, 3 / 2, 2]"

definition z_exits :: "real list" where
  "z_exits = [3 / 10, 1 / 2, 7 / 10]"

text \<open>\<^verbatim>\<open>itertools.product\<close>: the last list varies fastest.\<close>

definition grid :: "(int \<times> real \<times> real) list" where
  "grid = concat (map (\<lambda>w. concat (map (\<lambda>ze. map (\<lambda>zx. (w, ze, zx)) z_exits) z_entries)) windows)"

record summary =
  Window :: int
  Z_Entry :: real
  Z_Exit :: real
  Return :: real
  CAGR :: real
  Sharpe :: real
  MaxDD :: real
  WinRate :: real

definition summary_of :: "int \<times> real \<times> real \<Rightarrow> result \<Rightarrow> summary" where
  "summary_of p r =
     \<lparr>Window = fst p, Z_Entry = fst (snd p), Z_Exit = snd (snd p),
      Return = total_return r, CAGR = cagr r, Sharpe = sharpe r,
      MaxDD = max_drawdown r, WinRate = win_rate r\<rparr>"

text \<open>
  The loop of lines 146 to 161: a grid point whose backtest raises is reported and
  skipped (\<^verbatim>\<open>except Exception ... continue\<close>), any other appends its summary.
\<close>

fun sweep :: "row list \<Rightarrow> (int \<times> real \<times> real) list \<Rightarrow> summary list \<Rightarrow> summary list" where
  "sweep df [] results = results"
| "sweep df (p # ps) results =
     (case backtest_mean_reversion df (fst p) (fst (snd p)) (snd (snd p)) False True of
        Inl e \<Rightarrow> sweep df ps results
      | Inr r \<Rightarrow> sweep df ps (results @ [summary_of p r]))"

definition grid_results :: "row list \<Rightarrow> summary list" where
  "grid_results df = sweep df grid []"

text \<open>What one grid point contributes to the result list of the sweep.\<close>

definition point_summary :: "row list \<Rightarrow> int \<times> real \<times> real \<Rightarrow> summary option" where
  "point_summary df p =
     (case backtest_mean_reversion df (fst p) (fst (snd p)) (snd (snd p)) False True of
        Inl e \<Rightarrow> None
      | Inr r \<Rightarrow> Some (summary_of p r))"

subsection \<open>Trade log (lines 212 to 260)\<close>

datatype side = Long | Short

record trade =
  Entry_Date :: int
  Exit_Date :: int
  Days :: int
  Type :: side
  Entry :: real
  Exit :: real
  Return_pct :: real

text \<open>
  The loop's variables. \<^verbatim>\<open>entry_price\<close>, \<^verbatim>\<open>entry_date\<close> and \<^verbatim>\<open>position_type\<close> are
  assigned together with \<^verbatim>\<open>in_position = True\<close> (lines 225 to 228 and 255 to 258) and
  read only while the flag is set, so the state holds them as one optional record:
  \<open>None\<close> is \<^verbatim>\<open>in_position = False\<close>.
\<close>

record entry =
  entry_price :: real
  entry_date :: int
  position_type :: side

record log_state =
  trades :: "trade list"
  in_position :: "entry option"

definition side_of :: "real \<Rightarrow> side" where
  "side_of current_pos = (if current_pos > 0 then Long else Short)"

text \<open>\<^verbatim>\<open>best_df['position'].iloc[i-1]\<close>: at \<open>i = 0\<close> Python's index -1 reads the last row.\<close>

definition prev_position :: "real list \<Rightarrow> nat \<Rightarrow> real" where
  "prev_position pos i = pos ! (if i = 0 then length pos - 1 else i - 1)"

definition close_trade :: "entry \<Rightarrow> real \<Rightarrow> int \<Rightarrow> trade" where
  "close_trade e exit_price exit_date =
     \<lparr>Entry_Date = entry_date e,
      Exit_Date = exit_date,
      Days = exit_date - entry_date e,
      Type = position_type e,
      Entry = entry_price e,
      Exit = exit_price,
      Return_pct =
        (if position_type e = Long
         then (exit_price - entry_price e) / entry_price e * 100
         else (entry_price e - exit_price) / entry_price e * 100)\<rparr>"

definition log_step :: "row list \<Rightarrow> real list \<Rightarrow> nat \<Rightarrow> log_state \<Rightarrow> log_state" where
  "log_step df pos i st =
     (let current_pos = pos ! i;
          price = Close (df ! i);
          date = Date (df ! i)
      in case in_position st of
           None \<Rightarrow>
             if current_pos \<noteq> 0
             then st\<lparr>in_position :=
                       Some \<lparr>entry_price = price, entry_date = date,
                             position_type = side_of current_pos\<rparr>\<rparr>
             else st
         | Some e \<Rightarrow>
             if current_pos = 0 \<or> sgn current_pos \<noteq> sgn (prev_position pos i)
             then \<lparr>trades = trades st @ [close_trade e price date],
                   in_position =
                     (if current_pos \<noteq> 0
                      then Some \<lparr>entry_price = price, entry_date = date,
                                 position_type = side_of current_pos\<rparr>
                      else None)\<rparr>
             else st)"

definition log_init :: log_state where
  "log_init = \<lparr>trades = [], in_position = None\<rparr>"

definition log_run :: "row list \<Rightarrow> real list \<Rightarrow> nat \<Rightarrow> log_state" where
  "log_run df pos n = fold (log_step df pos) [0..<n] log_init"

definition trade_log :: "row list \<Rightarrow> real list \<Rightarrow> trade list" where
  "trade_log df pos = trades (log_run df pos (length df))"

subsection \<open>The simulation with a constant lag\<close>

text \<open>
  The simulation of section 4.3 of the specification run with a lagged position that is
  constantly 1, in the specification's words: raw return, clip into
  \<open>[stop_loss, take_profit]\<close>, trade cost (of the constant position 1), compounding.
\<close>

definition lag_one_curve :: "real list \<Rightarrow> real list" where
  "lag_one_curve rets =
     (let ones = replicate (length rets) 1
      in curve_of (net_with_lag ones ones rets))"

subsection \<open>The invariant of the trade log\<close>

text \<open>
  A date is at or before one of the first \<open>n\<close> rows. After \<open>n\<close> rows every trade of
  the ledger ends after it starts and at or before a row read so far, the ledger is in
  order, and an open entry is dated at or after every exit of the ledger.
\<close>

definition dated_before :: "row list \<Rightarrow> nat \<Rightarrow> int \<Rightarrow> bool" where
  "dated_before df n d = (\<exists>i<n. d \<le> Date (df ! i))"

definition log_inv :: "row list \<Rightarrow> nat \<Rightarrow> log_state \<Rightarrow> bool" where
  "log_inv df n st =
     ((\<forall>t \<in> set (trades st). Entry_Date t < Exit_Date t \<and> dated_before df n (Exit_Date t)) \<and>
      sorted_wrt (\<lambda>a b. Exit_Date a \<le> Entry_Date b) (trades st) \<and>
      (\<forall>e. in_position st = Some e \<longrightarrow>
           dated_before df n (entry_date e) \<and>
           (\<forall>t \<in> set (trades st). Exit_Date t \<le> entry_date e)))"

subsection \<open>Concrete price series\<close>

text \<open>
  Five downloaded closes (four rows after \<^verbatim>\<open>dropna\<close>): flat, a drop of ten per cent,
  and a close that lands exactly on the moving average.
\<close>

definition df_exit :: "row list" where
  "df_exit = load_df [(0, 100), (1, 100), (2, 100), (3, 90), (4, 95)]"

text \<open>Three downloaded closes whose two daily returns stay inside the clip bounds.\<close>

definition df_calm :: "row list" where
  "df_calm = load_df [(0, 100), (1, 101), (2, 100)]"

text \<open>
  Six downloaded closes (five rows) for the trade log, read with the positions
  1, -1, 0, 1, 0: a long trade, a reversal into a short trade, an exit, and a second
  long trade.
\<close>

definition df_trades :: "row list" where
  "df_trades = load_df [(0, 100), (1, 100), (2, 110), (3, 105), (4, 120), (5, 90)]"

text \<open>
  Two downloads of twelve closes (eleven rows) that differ in the last close only: nine
  flat days, a drop of ten per cent on the tenth row, and then either an unchanged close
  or a fall by half.
\<close>

definition df_calm_end :: "row list" where
  "df_calm_end =
     load_df [(0, 80), (1, 100), (2, 100), (3, 100), (4, 100), (5, 100), (6, 100),
              (7, 100), (8, 100), (9, 100), (10, 90), (11, 90)]"

definition df_crash_end :: "row list" where
  "df_crash_end =
     load_df [(0, 80), (1, 100), (2, 100), (3, 100), (4, 100), (5, 100), (6, 100),
              (7, 100), (8, 100), (9, 100), (10, 90), (11, 45)]"

section \<open>Properties\<close>

subsection \<open>Lengths of the columns\<close>

lemma length_shift_from: "length (shift_from p xs) = length xs"
  by (induction xs arbitrary: p) auto

lemma length_ewm_mean_from: "length (ewm_mean_from a m xs) = length xs"
  by (induction xs arbitrary: m) (auto simp: Let_def)

lemma length_ewm_mean: "length (ewm_mean a xs) = length xs"
  by (simp add: ewm_mean_def length_ewm_mean_from split: list.splits)

lemma length_ewm_var_from: "length (ewm_var_from a m c s xs) = length xs"
  by (induction xs arbitrary: m c s) (auto simp: Let_def)

lemma length_ewm_std: "length (ewm_std a xs) = length xs"
  by (simp add: ewm_std_def ewm_var_def length_ewm_var_from split: list.splits)

lemma length_z_score_raw:
  "length (z_score_raw cs (ewm_mean a cs) (ewm_std a cs)) = length cs"
  by (simp add: z_score_raw_def length_ewm_mean length_ewm_std)

lemma length_volatility: "length (volatility rs) = length rs"
  by (simp add: volatility_def rolling_std_def)

lemma length_vol_filter: "length zs = length rs \<Longrightarrow> length (vol_filter rs zs) = length rs"
  by (simp add: vol_filter_def length_volatility)

lemma length_z_score_col: "length (z_score_col df w fv) = length df"
  by (simp add: z_score_col_def Let_def length_z_score_raw length_vol_filter)

lemma length_ffill_zero: "length (ffill_zero h ss) = length ss"
  by (induction ss arbitrary: h) (auto simp: Let_def)

lemma length_position_col: "length (position_col ze zx dyn zs) = length zs"
  by (simp add: position_col_def Let_def held_col_def signal_col_def length_ffill_zero)

subsection \<open>The exit example, evaluated\<close>

lemma df_exit_rows:
  "df_exit =
     [\<lparr>Date = 1, Close = 100, returns = 0\<rparr>, \<lparr>Date = 2, Close = 100, returns = 0\<rparr>,
      \<lparr>Date = 3, Close = 90, returns = - (1 / 10)\<rparr>,
      \<lparr>Date = 4, Close = 95, returns = 1 / 18\<rparr>]"
  by (simp add: df_exit_def load_df_def)

lemma sqrt_40_less: "sqrt 40 < 10"
  by (rule real_less_lsqrt) simp_all

lemma z_exit_example: "z_score_col df_exit 3 fv = [0, 0, - (5 / sqrt 40), 0]"
proof -
  have raw: "z_score_col df_exit 3 False = [0, 0, - (5 / sqrt 40), 0]"
    by (simp add: df_exit_rows ewm_alpha_def ewm_var_def ewm_std_def ewm_mean_def
        z_score_col_def z_score_raw_def Let_def power2_eq_square)
  have vol: "volatility (map returns df_exit) = [None, None, None, None]"
    by (simp add: df_exit_rows volatility_def rolling_std_def upt_rec)
  have thr: "vol_threshold (map returns df_exit) = None"
    by (simp add: vol_threshold_def vol quantile_def List.map_filter_def)
  have "z_score_col df_exit 3 True
          = vol_filter (map returns df_exit) (z_score_col df_exit 3 False)"
    by (simp add: z_score_col_def Let_def)
  also have "\<dots> = [0, 0, - (5 / sqrt 40), 0]"
    unfolding raw vol_filter_def vol thr by simp
  finally show ?thesis using raw by (cases fv) simp_all
qed

lemma signal_exit_example:
  "signal_col (1 / 2) (3 / 10) [0, 0, - (5 / sqrt 40), 0] = [0, 0, 1, 0]"
proof -
  have a: "1 / 2 < 5 / sqrt 40" using sqrt_40_less by (simp add: pos_less_divide_eq)
  then have b: "\<not> \<bar>5 / sqrt 40\<bar> < 3 / 10" by linarith
  have c: "\<not> 5 / sqrt 40 < - (1 / 2)" using a by linarith
  from a b c show ?thesis by (simp add: signal_col_def signal_of_def Let_def)
qed

lemma position_exit_example:
  "position (backtest_data df_exit 3 (1 / 2) (3 / 10) False fv) = [0, 0, 1, 1]"
  by (simp add: backtest_data_def Let_def z_exit_example position_col_def
      signal_exit_example held_col_def)

lemma signal_exit_frame:
  "signal (backtest_data df_exit 3 (1 / 2) (3 / 10) dyn fv) = [0, 0, 1, 0]"
  by (simp add: backtest_data_def Let_def z_exit_example signal_exit_example)

subsection \<open>Ranges of the signal and the position\<close>

lemma signal_of_range: "signal_of ze zx z \<in> {- 1, 0, 1}"
  by (simp add: signal_of_def Let_def)

lemma set_ffill_zero: "set (ffill_zero h ss) \<subseteq> insert h (set ss)"
proof (induction ss arbitrary: h)
  case Nil
  show ?case by simp
next
  case (Cons s ss)
  show ?case using Cons.IH[of h] Cons.IH[of s] by (auto simp: Let_def)
qed

lemma held_col_range:
  assumes "p \<in> set (held_col (signal_col ze zx zs))"
  shows "p \<in> {- 1, 0, 1}"
proof -
  from assms set_ffill_zero[of 0 "signal_col ze zx zs"]
  have "p = 0 \<or> p \<in> set (signal_col ze zx zs)"
    unfolding held_col_def by blast
  then show ?thesis
  proof
    assume "p = 0" then show ?thesis by simp
  next
    assume "p \<in> set (signal_col ze zx zs)"
    then obtain z where "p = signal_of ze zx z" unfolding signal_col_def by auto
    then show ?thesis using signal_of_range[of ze zx z] by simp
  qed
qed

lemma abs_clip_le: "\<bar>clip x (- 1) 1\<bar> \<le> 1"
  by (simp add: clip_def min_def max_def abs_le_iff)

lemma dynamic_abs_le: "\<bar>sgn (p::real) * \<bar>position_size ze z\<bar>\<bar> \<le> 1"
proof -
  have "\<bar>sgn p * \<bar>position_size ze z\<bar>\<bar> = \<bar>sgn p\<bar> * \<bar>position_size ze z\<bar>"
    by (simp add: abs_mult)
  also have "\<dots> \<le> 1 * 1"
    by (intro mult_mono) (auto simp: position_size_def abs_clip_le sgn_real_def)
  finally show ?thesis by simp
qed

lemma position_col_static_range:
  assumes "p \<in> set (position_col ze zx False zs)"
  shows "p \<in> {- 1, 0, 1}"
proof -
  from assms obtain h where h: "h \<in> set (held_col (signal_col ze zx zs))"
    and p: "p = real_of_int h"
    by (auto simp: position_col_def)
  from held_col_range[OF h] p show ?thesis by auto
qed

lemma position_col_abs_le:
  assumes "p \<in> set (position_col ze zx dyn zs)"
  shows "- 1 \<le> p \<and> p \<le> 1"
proof (cases dyn)
  case True
  with assms obtain h z where "p = sgn h * \<bar>position_size ze z\<bar>"
    by (auto simp: position_col_def Let_def)
  then show ?thesis using dynamic_abs_le[of h ze z] by (simp add: abs_le_iff)
next
  case False
  with assms have "p \<in> set (position_col ze zx False zs)" by simp
  from position_col_static_range[OF this] show ?thesis by auto
qed

text \<open>
  Claim C9. For every frame, every window and exit threshold and every positive entry
  threshold, every entry of the signal column is -1, 0 or 1; without dynamic sizing
  every position is -1, 0 or 1; and in either sizing mode every position lies between
  -1 and 1.
\<close>

theorem position_bounds:
  assumes "0 < ze"
  shows "(\<forall>s \<in> set (signal (backtest_data df w ze zx dyn fv)). s \<in> {- 1, 0, 1}) \<and>
         (\<forall>p \<in> set (position (backtest_data df w ze zx False fv)). p \<in> {- 1, 0, 1}) \<and>
         (\<forall>p \<in> set (position (backtest_data df w ze zx dyn fv)). - 1 \<le> p \<and> p \<le> 1)"
proof (intro conjI)
  show "\<forall>s \<in> set (signal (backtest_data df w ze zx dyn fv)). s \<in> {- 1, 0, 1}"
    using signal_of_range by (auto simp: backtest_data_def Let_def signal_col_def)
  show "\<forall>p \<in> set (position (backtest_data df w ze zx False fv)). p \<in> {- 1, 0, 1}"
    using position_col_static_range[of _ ze zx] by (simp add: backtest_data_def Let_def)
  show "\<forall>p \<in> set (position (backtest_data df w ze zx dyn fv)). - 1 \<le> p \<and> p \<le> 1"
    using position_col_abs_le[of _ ze zx dyn] by (simp add: backtest_data_def Let_def)
qed

theorem position_bounds_witness:
  "(0::real) < 1 / 2 \<and>
   (1::int) \<in> set (signal (backtest_data df_exit 3 (1 / 2) (3 / 10) False True)) \<and>
   (1::int) \<in> {- 1, 0, 1} \<and>
   (1::real) \<in> set (position (backtest_data df_exit 3 (1 / 2) (3 / 10) False True)) \<and>
   (1::real) \<in> {- 1, 0, 1} \<and> - 1 \<le> (1::real) \<and> (1::real) \<le> 1"
proof -
  have h: "(0::real) < 1 / 2" by simp
  from position_bounds[OF h, of df_exit 3 "3 / 10" False True] h show ?thesis
    by (simp add: position_exit_example signal_exit_frame)
qed

subsection \<open>Days with zero deviation\<close>

lemma ffill_zero_nonzero: "h \<noteq> 0 \<Longrightarrow> 0 \<notin> set (ffill_zero h ss)"
  by (induction ss arbitrary: h) (auto simp: Let_def)

lemma nth_ffill_zero:
  "t < length ss \<Longrightarrow> ss ! t = 0 \<Longrightarrow>
   ffill_zero h ss ! t = (if t = 0 then h else ffill_zero h ss ! (t - 1))"
proof (induction ss arbitrary: h t)
  case Nil
  then show ?case by simp
next
  case (Cons s ss)
  show ?case
  proof (cases t)
    case 0
    with Cons.prems show ?thesis by (simp add: Let_def)
  next
    case (Suc k)
    with Cons.prems have k: "k < length ss" "ss ! k = 0" by simp_all
    from Cons.IH[OF k, of "if s = 0 then h else s"] Suc show ?thesis
      by (cases k) (simp_all add: Let_def)
  qed
qed

lemma nth_z_score_raw:
  "t < length cs \<Longrightarrow> length ms = length cs \<Longrightarrow> length ss = length cs \<Longrightarrow>
   z_score_raw cs ms ss ! t = z_score_of (cs ! t) (ms ! t) (ss ! t)"
  by (simp add: z_score_raw_def)

lemma nth_vol_filter:
  "t < length zs \<Longrightarrow> length zs = length rs \<Longrightarrow>
   vol_filter rs zs ! t = (if gt_nan (volatility rs ! t) (vol_threshold rs) then 0 else zs ! t)"
  by (simp add: vol_filter_def length_volatility)

lemma z_score_col_std_zero:
  assumes "t < length df" "ewm_std (ewm_alpha w) (map Close df) ! t = Some 0"
  shows "z_score_col df w fv ! t = 0"
proof -
  let ?cs = "map Close df"
  let ?zs = "z_score_raw ?cs (ewm_mean (ewm_alpha w) ?cs) (ewm_std (ewm_alpha w) ?cs)"
  have raw: "?zs ! t = 0"
    using assms by (simp add: nth_z_score_raw length_ewm_mean length_ewm_std del: z_score_of.simps)
       (simp add: assms)
  have len: "length ?zs = length (map returns df)" by (simp add: length_z_score_raw)
  show ?thesis
  proof (cases fv)
    case False
    then show ?thesis using raw by (simp add: z_score_col_def Let_def)
  next
    case True
    have "vol_filter (map returns df) ?zs ! t = 0"
      using nth_vol_filter[OF _ len, of t] assms(1) raw by (simp add: length_z_score_raw)
    with True show ?thesis by (simp add: z_score_col_def Let_def)
  qed
qed

lemma signal_of_zero: "0 < ze \<Longrightarrow> signal_of ze zx 0 = 0"
  by (simp add: signal_of_def Let_def)

lemma nth_static_position:
  assumes "0 < ze" "t < length zs" "zs ! t = 0"
  shows "position_col ze zx False zs ! t
           = (if t = 0 then 0 else position_col ze zx False zs ! (t - 1))"
proof -
  let ?sig = "signal_col ze zx zs"
  have s: "t < length ?sig" "?sig ! t = 0"
    using assms by (simp_all add: signal_col_def signal_of_zero)
  have "held_col ?sig ! t = (if t = 0 then 0 else held_col ?sig ! (t - 1))"
    unfolding held_col_def using nth_ffill_zero[OF s, of 0] .
  moreover have "t < length (held_col ?sig)"
    using s by (simp add: held_col_def length_ffill_zero)
  ultimately show ?thesis
    by (simp add: position_col_def)
qed

lemma nth_dynamic_position:
  assumes "t < length zs" "zs ! t = 0"
  shows "position_col ze zx True zs ! t = 0"
  using assms
  by (simp add: position_col_def Let_def held_col_def signal_col_def length_ffill_zero
      position_size_def clip_def)

subsection \<open>The backtest returns on a frame with rows\<close>

lemma length_diff_from: "length (diff_from p xs) = length xs"
  by (induction xs arbitrary: p) auto

lemma length_diff_fill: "length (diff_fill xs) = length xs"
  by (simp add: diff_fill_def length_diff_from split: list.splits)

lemma length_cumprod_from: "length (cumprod_from a xs) = length xs"
  by (induction xs arbitrary: a) auto

lemma length_curve_of: "length (curve_of rs) = length rs"
  by (simp add: curve_of_def cumprod_def length_cumprod_from)

lemma length_net_with_lag:
  "length lag = length rs \<Longrightarrow> length pos = length rs \<Longrightarrow>
   length (net_with_lag lag pos rs) = length rs"
  by (simp add: net_with_lag_def net_of_def strategy_clipped_col_def trade_cost_col_def
      length_diff_fill)

lemma length_strategy_net_col:
  "length pos = length rs \<Longrightarrow> length (strategy_net_col pos rs) = length rs"
  by (simp add: strategy_net_col_def length_net_with_lag shift_fill_def length_shift_from)

lemma length_equity_curve_col:
  "length pos = length rs \<Longrightarrow> length (equity_curve_col pos rs) = length rs"
  by (simp add: equity_curve_col_def length_curve_of length_strategy_net_col)

lemma length_equity_curve:
  "length (equity_curve (backtest_data df w ze zx dyn fv)) = length df"
  by (simp add: backtest_data_def Let_def length_equity_curve_col length_position_col
      length_z_score_col)

lemma backtest_ok:
  assumes "1 \<le> w" "df \<noteq> []"
  shows "\<exists>r. backtest_mean_reversion df w ze zx dyn fv = Inr r \<and>
             data r = backtest_data df w ze zx dyn fv"
proof -
  have "length (equity_curve (backtest_data df w ze zx dyn fv)) = length df"
    by (rule length_equity_curve)
  then have "rev (equity_curve (backtest_data df w ze zx dyn fv)) \<noteq> []"
    using assms by auto
  then show ?thesis using assms(1)
    by (auto simp: backtest_mean_reversion_def Let_def split: list.splits)
qed

text \<open>
  Claim C7. With a window of at least 1 and a positive entry threshold, on a day whose
  exponentially weighted standard deviation is 0 the backtest returns a result (nothing
  is raised), the z-score of that day is 0, the static position of that day is the
  position of the day before (0 on the first day), so no position is opened, and the
  dynamically sized position of that day is 0.
\<close>

theorem std_zero_day:
  assumes "1 \<le> window" and "0 < z_entry" and "t < length df"
    and "ewm_std (ewm_alpha window) (map Close df) ! t = Some 0"
  shows "(\<exists>r. backtest_mean_reversion df window z_entry z_exit dyn fv = Inr r \<and>
              data r = backtest_data df window z_entry z_exit dyn fv) \<and>
         z_score (backtest_data df window z_entry z_exit dyn fv) ! t = 0 \<and>
         position (backtest_data df window z_entry z_exit False fv) ! t =
           (if t = 0 then 0
            else position (backtest_data df window z_entry z_exit False fv) ! (t - 1)) \<and>
         position (backtest_data df window z_entry z_exit True fv) ! t = 0"
proof -
  let ?zs = "z_score_col df window fv"
  have z: "?zs ! t = 0" using assms(3,4) by (rule z_score_col_std_zero)
  have t: "t < length ?zs" using assms(3) by (simp add: length_z_score_col)
  have "df \<noteq> []" using assms(3) by auto
  from backtest_ok[OF assms(1) this]
  have ok: "\<exists>r. backtest_mean_reversion df window z_entry z_exit dyn fv = Inr r \<and>
              data r = backtest_data df window z_entry z_exit dyn fv" .
  have st: "position_col z_entry z_exit False ?zs ! t
              = (if t = 0 then 0 else position_col z_entry z_exit False ?zs ! (t - 1))"
    using assms(2) t z by (rule nth_static_position)
  have dy: "position_col z_entry z_exit True ?zs ! t = 0"
    using t z by (rule nth_dynamic_position)
  from ok z st dy show ?thesis by (simp add: backtest_data_def Let_def)
qed

theorem std_zero_day_witness:
  "(1::int) \<le> 3 \<and> (0::real) < 1 / 2 \<and> 1 < length df_exit \<and>
   ewm_std (ewm_alpha 3) (map Close df_exit) ! 1 = Some 0 \<and>
   z_score (backtest_data df_exit 3 (1 / 2) (3 / 10) False True) ! 1 = 0 \<and>
   position (backtest_data df_exit 3 (1 / 2) (3 / 10) False True) ! 1 = 0 \<and>
   position (backtest_data df_exit 3 (1 / 2) (3 / 10) True True) ! 1 = 0"
proof -
  have h1: "(1::int) \<le> 3" and h2: "(0::real) < 1 / 2" by simp_all
  have h3: "1 < length df_exit" by (simp add: df_exit_rows)
  have h4: "ewm_std (ewm_alpha 3) (map Close df_exit) ! 1 = Some 0"
    by (simp add: df_exit_rows ewm_alpha_def ewm_var_def ewm_std_def Let_def power2_eq_square)
  from std_zero_day[OF h1 h2 h3 h4, of "3 / 10" False True] h1 h2 h3 h4
  show ?thesis by (simp add: position_exit_example)
qed

subsection \<open>The exit rule\<close>

lemma exit_threshold_unused:
  assumes "zx \<le> ze" and "zx' \<le> ze"
  shows "signal_of ze zx z = signal_of ze zx' z"
  using assms by (auto simp: signal_of_def Let_def)

lemma exit_threshold_unused_position:
  assumes "zx \<le> ze" and "zx' \<le> ze"
  shows "position_col ze zx dyn zs = position_col ze zx' dyn zs"
proof -
  have "signal_col ze zx zs = signal_col ze zx' zs"
    unfolding signal_col_def using exit_threshold_unused[OF assms] by simp
  then show ?thesis by (simp add: position_col_def)
qed

text \<open>
  Claim C1, evaluated on the exit example (window 3, entry threshold 1/2, exit threshold
  3/10): on the last day the z-score is inside the exit zone and the signal is 0, yet
  the position stays 1. The forward fill of line 79 replaces every 0 of the signal column,
  the 0 written by the exit rule of line 76 included, so a position once taken is never
  closed (lemma \<open>ffill_zero_nonzero\<close>), and an exit threshold at or below the entry
  threshold has no effect on the positions (lemma \<open>exit_threshold_unused_position\<close>).
\<close>

theorem exit_zone_keeps_position:
  "\<bar>z_score (backtest_data df_exit 3 (1 / 2) (3 / 10) False True) ! 3\<bar> < 3 / 10 \<and>
   signal (backtest_data df_exit 3 (1 / 2) (3 / 10) False True) ! 3 = 0 \<and>
   position (backtest_data df_exit 3 (1 / 2) (3 / 10) False True) = [0, 0, 1, 1]"
  using position_exit_example[of True] signal_exit_frame[of False True]
  by (simp add: backtest_data_def Let_def z_exit_example)

subsection \<open>Failures of the backtest and the sweep\<close>

lemma backtest_fails_iff_aux:
  "isl (backtest_mean_reversion df w ze zx dyn fv) = (w \<le> 0 \<or> df = [])"
proof (cases "1 \<le> w \<and> df \<noteq> []")
  case True
  with backtest_ok[of w df ze zx dyn fv] show ?thesis by auto
next
  case False
  have "length (equity_curve (backtest_data df w ze zx dyn fv)) = length df"
    by (rule length_equity_curve)
  then have "df = [] \<Longrightarrow> rev (equity_curve (backtest_data df w ze zx dyn fv)) = []"
    by simp
  with False show ?thesis
    by (auto simp: backtest_mean_reversion_def Let_def)
qed

lemma sweep_map_filter:
  "sweep df ps results = results @ List.map_filter (point_summary df) ps"
  by (induction ps arbitrary: results)
     (auto simp: List.map_filter_simps point_summary_def split: sum.splits)

lemma grid_windows: "p \<in> set grid \<Longrightarrow> 1 \<le> fst p"
  by (auto simp: grid_def windows_def)

lemma length_grid: "length grid = 36"
  by (simp add: grid_def windows_def z_entries_def z_exits_def)

text \<open>
  Claim C3, as stated, at window 10, entry threshold 1 and exit threshold 2: the exit
  threshold is not below the entry threshold, and the backtest does not fail.
\<close>

theorem invalid_thresholds_do_not_fail:
  "\<not> (isl (backtest_mean_reversion df_exit 10 1 2 False True)
        = ((10::int) \<le> 0 \<or> (1::real) \<le> 0 \<or> (2::real) \<ge> 1))"
  by (simp add: backtest_fails_iff_aux df_exit_rows)

text \<open>
  Claim C3, amended. The backtest fails exactly when the window is 0 or less (pandas
  refuses the span) or the frame has no rows; the thresholds are never checked. The
  sweep skips every grid point whose backtest fails and keeps the summaries of the
  others, in the order of the grid.
\<close>

theorem backtest_fails_iff:
  "isl (backtest_mean_reversion df window z_entry z_exit dyn fv) = (window \<le> 0 \<or> df = []) \<and>
   sweep df ps results = results @ List.map_filter (point_summary df) ps"
  using backtest_fails_iff_aux sweep_map_filter by simp

subsection \<open>Net return, row by row\<close>

lemma nth_shift_from:
  "t < length xs \<Longrightarrow> shift_from p xs ! t = (if t = 0 then p else xs ! (t - 1))"
proof (induction xs arbitrary: p t)
  case Nil
  then show ?case by simp
next
  case (Cons x xs)
  show ?case
  proof (cases t)
    case 0
    then show ?thesis by simp
  next
    case (Suc k)
    with Cons.prems have "k < length xs" by simp
    from Cons.IH[OF this, of x] Suc show ?thesis by (cases k) simp_all
  qed
qed

lemma nth_diff_from:
  "t < length xs \<Longrightarrow> diff_from p xs ! t = xs ! t - (if t = 0 then p else xs ! (t - 1))"
proof (induction xs arbitrary: p t)
  case Nil
  then show ?case by simp
next
  case (Cons x xs)
  show ?case
  proof (cases t)
    case 0
    then show ?thesis by simp
  next
    case (Suc k)
    with Cons.prems have "k < length xs" by simp
    from Cons.IH[OF this, of x] Suc show ?thesis by (cases k) simp_all
  qed
qed

lemma nth_diff_fill:
  "t < length xs \<Longrightarrow> diff_fill xs ! t = (if t = 0 then 0 else xs ! t - xs ! (t - 1))"
proof (cases xs)
  case Nil
  assume "t < length xs"
  with Nil show ?thesis by simp
next
  case (Cons x rest)
  assume t: "t < length xs"
  show ?thesis
  proof (cases t)
    case 0
    with Cons show ?thesis by (simp add: diff_fill_def)
  next
    case (Suc k)
    with t Cons have "k < length rest" by simp
    from nth_diff_from[OF this, of x] Suc Cons show ?thesis
      by (cases k) (simp_all add: diff_fill_def)
  qed
qed

lemma nth_net_with_lag:
  assumes "t < length rets" "length lag = length rets" "length pos = length rets"
  shows "net_with_lag lag pos rets ! t =
           clip (lag ! t * rets ! t) stop_loss take_profit
           - cost_per_trade * \<bar>if t = 0 then 0 else pos ! t - pos ! (t - 1)\<bar>"
  using assms
  by (simp add: net_with_lag_def net_of_def strategy_clipped_col_def trade_cost_col_def
      length_diff_fill nth_diff_fill)

lemma nth_strategy_net_col:
  assumes "t < length pos" "length rets = length pos"
  shows "strategy_net_col pos rets ! t =
           clip ((if t = 0 then 0 else pos ! (t - 1)) * rets ! t) stop_loss take_profit
           - cost_per_trade * \<bar>if t = 0 then 0 else pos ! t - pos ! (t - 1)\<bar>"
  using assms
  by (simp add: strategy_net_col_def nth_net_with_lag shift_fill_def length_shift_from
      nth_shift_from)

lemma net_example:
  "strategy_net_col [0, 1, 0] [r0, 2 / 100, - (1 / 100)] = [0, - (1 / 1000), - (11 / 1000)]"
  by (simp add: strategy_net_col_def net_with_lag_def net_of_def strategy_clipped_col_def
      trade_cost_col_def shift_fill_def diff_fill_def clip_def stop_loss_def take_profit_def
      cost_per_trade_def)

text \<open>
  Claim C6, amended. The net return of a day is the clipped product of the position of
  the day before (0 on the first day) and the day's return, less the cost per trade times
  the absolute change of the position from the day before (no cost on the first day).
  Positions 0, 1, 0 against returns \<open>r0\<close>, 0.02, -0.01 give the net returns 0, -0.001,
  -0.011: the position opened at the close of the second day earns nothing that day.
\<close>

theorem net_return_with_lag:
  assumes "t < length pos" and "length rets = length pos"
  shows "strategy_net_col pos rets ! t =
           clip ((if t = 0 then 0 else pos ! (t - 1)) * rets ! t) stop_loss take_profit
           - cost_per_trade * (if t = 0 then 0 else \<bar>pos ! t - pos ! (t - 1)\<bar>) \<and>
         strategy_net_col [0, 1, 0] [r0, 2 / 100, - (1 / 100)]
           = [0, - (1 / 1000), - (11 / 1000)]"
  using nth_strategy_net_col[OF assms] net_example by simp

theorem net_return_with_lag_witness:
  "(2::nat) < length [0, 1, 0::real] \<and>
   length [0, 2 / 100, - (1 / 100) ::real] = length [0, 1, 0::real] \<and>
   strategy_net_col [0, 1, 0] [0, 2 / 100, - (1 / 100)] ! 2 = - (11 / 1000)"
proof -
  have h1: "(2::nat) < length [0, 1, 0::real]" by simp
  have h2: "length [0, 2 / 100, - (1 / 100) ::real] = length [0, 1, 0::real]" by simp
  from net_return_with_lag[OF h1 h2, of 0] show ?thesis
    by (simp add: clip_def stop_loss_def take_profit_def cost_per_trade_def)
qed

text \<open>
  Claim C6, as stated: however the position path 0, 1, 0 is laid against the returns
  0.02, -0.01, the net returns are not 0.019, -0.011.
\<close>

theorem cost_example_differs:
  "drop 1 (strategy_net_col [0, 1, 0] [0, 2 / 100, - (1 / 100)]) \<noteq> [19 / 1000, - (11 / 1000)] \<and>
   strategy_net_col [1, 0] [2 / 100, - (1 / 100)] \<noteq> [19 / 1000, - (11 / 1000)] \<and>
   strategy_net_col [0, 1] [2 / 100, - (1 / 100)] \<noteq> [19 / 1000, - (11 / 1000)]"
  by (simp add: strategy_net_col_def net_with_lag_def net_of_def strategy_clipped_col_def
      trade_cost_col_def shift_fill_def diff_fill_def clip_def stop_loss_def take_profit_def
      cost_per_trade_def)

subsection \<open>Buy and hold\<close>

lemma clip_id: "lo \<le> x \<Longrightarrow> x \<le> hi \<Longrightarrow> clip x lo hi = x"
  by (simp add: clip_def)

lemma lag_one_net:
  assumes "\<forall>r \<in> set rets. stop_loss \<le> r \<and> r \<le> take_profit"
  shows "net_with_lag (replicate (length rets) 1) (replicate (length rets) 1) rets = rets"
proof (rule nth_equalityI)
  show "length (net_with_lag (replicate (length rets) 1) (replicate (length rets) 1) rets)
          = length rets"
    by (simp add: length_net_with_lag)
next
  fix t
  assume "t < length (net_with_lag (replicate (length rets) 1) (replicate (length rets) 1) rets)"
  then have t: "t < length rets" by (simp add: length_net_with_lag)
  then have "rets ! t \<in> set rets" by simp
  with assms have "clip (rets ! t) stop_loss take_profit = rets ! t"
    by (simp add: clip_id)
  with t show "net_with_lag (replicate (length rets) 1) (replicate (length rets) 1) rets ! t
                 = rets ! t"
    by (simp add: nth_net_with_lag)
qed

text \<open>
  Claim C4, amended. For every frame, the buy-and-hold curve is the initial capital
  times the running product of one plus the raw return, with no clipping and no cost;
  and whenever every return of the frame lies within the clip bounds it equals the
  simulation with a constant lagged position of 1.
\<close>

theorem buy_hold_is_unclipped:
  "buy_hold_curve (backtest_data df w ze zx dyn fv)
     = map (\<lambda>p. initial_capital * p) (cumprod (map (\<lambda>r. 1 + r) (map returns df))) \<and>
   ((\<forall>r \<in> set (map returns df). stop_loss \<le> r \<and> r \<le> take_profit) \<longrightarrow>
      buy_hold_curve (backtest_data df w ze zx dyn fv) = lag_one_curve (map returns df))"
proof (intro conjI impI)
  show "buy_hold_curve (backtest_data df w ze zx dyn fv)
     = map (\<lambda>p. initial_capital * p) (cumprod (map (\<lambda>r. 1 + r) (map returns df)))"
    by (simp add: backtest_data_def Let_def buy_hold_curve_col_def curve_of_def)
next
  assume "\<forall>r \<in> set (map returns df). stop_loss \<le> r \<and> r \<le> take_profit"
  from lag_one_net[OF this]
  show "buy_hold_curve (backtest_data df w ze zx dyn fv) = lag_one_curve (map returns df)"
    by (simp add: backtest_data_def Let_def buy_hold_curve_col_def lag_one_curve_def)
qed

lemma df_calm_rows:
  "df_calm = [\<lparr>Date = 1, Close = 101, returns = 1 / 100\<rparr>,
              \<lparr>Date = 2, Close = 100, returns = - (1 / 101)\<rparr>]"
  by (simp add: df_calm_def load_df_def)

theorem buy_hold_is_unclipped_witness:
  "stop_loss \<le> 1 / 100 \<and> 1 / 100 \<le> take_profit \<and>
   stop_loss \<le> - (1 / 101) \<and> - (1 / 101) \<le> take_profit \<and>
   buy_hold_curve (backtest_data df_calm 10 1 (3 / 10) False True) = [10100, 10000] \<and>
   lag_one_curve (map returns df_calm) = [10100, 10000]"
proof -
  have h: "\<forall>r \<in> set (map returns df_calm). stop_loss \<le> r \<and> r \<le> take_profit"
    by (simp add: df_calm_rows stop_loss_def take_profit_def)
  have c: "map (\<lambda>p. initial_capital * p) (cumprod (map (\<lambda>r. 1 + r) (map returns df_calm)))
             = [10100, 10000]"
    by (simp add: df_calm_rows cumprod_def initial_capital_def)
  from buy_hold_is_unclipped[of df_calm 10 1 "3 / 10" False True] h
  have a: "buy_hold_curve (backtest_data df_calm 10 1 (3 / 10) False True) = [10100, 10000]"
    and b: "buy_hold_curve (backtest_data df_calm 10 1 (3 / 10) False True)
              = lag_one_curve (map returns df_calm)"
    unfolding c by blast+
  from a b[symmetric] show ?thesis by (simp add: stop_loss_def take_profit_def)
qed

text \<open>
  Claim C4, as stated, on a frame of one row with a return of ten per cent: buy and hold
  ends at 11000, the simulation with the lag constantly 1 clips the return to five per
  cent and ends at 10500.
\<close>

theorem buy_hold_not_clipped:
  "buy_hold_curve (backtest_data [\<lparr>Date = 1, Close = 110, returns = 1 / 10\<rparr>] 10 1 (3 / 10) False True)
     \<noteq> lag_one_curve [1 / 10]"
  by (simp add: backtest_data_def Let_def buy_hold_curve_col_def lag_one_curve_def curve_of_def
      cumprod_def net_with_lag_def net_of_def strategy_clipped_col_def trade_cost_col_def
      diff_fill_def clip_def stop_loss_def take_profit_def initial_capital_def)

subsection \<open>The trade log is in chronological order\<close>

lemma log_run_0: "log_run df pos 0 = log_init"
  by (simp add: log_run_def)

lemma log_run_Suc: "log_run df pos (Suc n) = log_step df pos n (log_run df pos n)"
  by (simp add: log_run_def)

lemma dated_before_mono: "dated_before df n d \<Longrightarrow> dated_before df (Suc n) d"
  unfolding dated_before_def using less_Suc_eq by blast

lemma dated_before_self: "dated_before df (Suc n) (Date (df ! n))"
  unfolding dated_before_def by blast

lemma dated_before_less:
  assumes "sorted_wrt (<) (map Date df)" "n < length df" "dated_before df n d"
  shows "d < Date (df ! n)"
proof -
  from assms(3) obtain i where i: "i < n" "d \<le> Date (df ! i)"
    unfolding dated_before_def by blast
  from assms(1,2) i(1) have "map Date df ! i < map Date df ! n"
    by (intro sorted_wrt_nth_less) simp_all
  with assms(2) i show ?thesis by simp
qed

lemma log_inv_init: "log_inv df 0 log_init"
  by (simp add: log_inv_def log_init_def)

lemma log_inv_step:
  assumes sorted: "sorted_wrt (<) (map Date df)" and n: "n < length df"
    and inv: "log_inv df n st"
  shows "log_inv df (Suc n) (log_step df pos n st)"
proof (cases "in_position st")
  case None
  show ?thesis
  proof (cases "pos ! n = 0")
    case True
    with None have "log_step df pos n st = st" by (simp add: log_step_def Let_def)
    with inv None show ?thesis
      by (auto simp: log_inv_def dated_before_mono)
  next
    case False
    with None have st': "log_step df pos n st =
        st\<lparr>in_position := Some \<lparr>entry_price = Close (df ! n), entry_date = Date (df ! n),
                                 position_type = side_of (pos ! n)\<rparr>\<rparr>"
      by (simp add: log_step_def Let_def)
    have "\<forall>t \<in> set (trades st). Exit_Date t \<le> Date (df ! n)"
      using inv dated_before_less[OF sorted n] by (fastforce simp: log_inv_def)
    with inv show ?thesis
      unfolding st' log_inv_def using dated_before_self[of df n]
      by (auto simp: dated_before_mono)
  qed
next
  case (Some e)
  from inv Some have e: "dated_before df n (entry_date e)"
    and te: "\<forall>t \<in> set (trades st). Exit_Date t \<le> entry_date e"
    by (auto simp: log_inv_def)
  from dated_before_less[OF sorted n e] have lt: "entry_date e < Date (df ! n)" .
  show ?thesis
  proof (cases "pos ! n = 0 \<or> sgn (pos ! n) \<noteq> sgn (prev_position pos n)")
    case False
    with Some have "log_step df pos n st = st" by (simp add: log_step_def Let_def)
    with inv show ?thesis by (auto simp: log_inv_def dated_before_mono)
  next
    case True
    let ?T = "close_trade e (Close (df ! n)) (Date (df ! n))"
    from True Some have tr: "trades (log_step df pos n st) = trades st @ [?T]"
      and ip: "in_position (log_step df pos n st) =
                 (if pos ! n \<noteq> 0
                  then Some \<lparr>entry_price = Close (df ! n), entry_date = Date (df ! n),
                             position_type = side_of (pos ! n)\<rparr>
                  else None)"
      by (auto simp: log_step_def Let_def)
    have T: "Entry_Date ?T = entry_date e" "Exit_Date ?T = Date (df ! n)"
      by (simp_all add: close_trade_def)
    have a: "\<forall>t \<in> set (trades st @ [?T]).
               Entry_Date t < Exit_Date t \<and> dated_before df (Suc n) (Exit_Date t)"
      using inv lt T dated_before_self[of df n]
      by (auto simp: log_inv_def dated_before_mono)
    have b: "sorted_wrt (\<lambda>a b. Exit_Date a \<le> Entry_Date b) (trades st @ [?T])"
      using inv te T by (auto simp: log_inv_def sorted_wrt_append)
    have c: "\<forall>t \<in> set (trades st @ [?T]). Exit_Date t \<le> Date (df ! n)"
      using te lt T by fastforce
    show ?thesis
      unfolding log_inv_def tr ip using a b c dated_before_self[of df n] by auto
  qed
qed

lemma log_inv_run:
  assumes "sorted_wrt (<) (map Date df)" "n \<le> length df"
  shows "log_inv df n (log_run df pos n)"
  using assms(2)
proof (induction n)
  case 0
  show ?case by (simp add: log_run_0 log_inv_init)
next
  case (Suc n)
  then have "n < length df" "log_inv df n (log_run df pos n)" by simp_all
  from log_inv_step[OF assms(1) this] show ?case by (simp add: log_run_Suc)
qed

text \<open>
  Claim C10. On a frame whose dates increase strictly, every trade of the ledger has its
  entry date strictly before its exit date, and of any two trades of the ledger the later
  one is entered at or after the exit of the earlier one.
\<close>

theorem trades_ordered:
  assumes "sorted_wrt (<) (map Date df)"
  shows "(\<forall>t \<in> set (trade_log df pos). Entry_Date t < Exit_Date t) \<and>
         sorted_wrt (\<lambda>a b. Exit_Date a \<le> Entry_Date b) (trade_log df pos)"
  using log_inv_run[OF assms, of "length df" pos]
  by (simp add: trade_log_def log_inv_def)


subsection \<open>The trade example, evaluated\<close>

lemma df_trades_rows:
  "df_trades =
     [\<lparr>Date = 1, Close = 100, returns = 0\<rparr>, \<lparr>Date = 2, Close = 110, returns = 1 / 10\<rparr>,
      \<lparr>Date = 3, Close = 105, returns = - (1 / 22)\<rparr>,
      \<lparr>Date = 4, Close = 120, returns = 1 / 7\<rparr>,
      \<lparr>Date = 5, Close = 90, returns = - (1 / 4)\<rparr>]"
  by (simp add: df_trades_def load_df_def)

lemma trade_log_example:
  "trade_log df_trades [1, - 1, 0, 1, 0] =
     [\<lparr>Entry_Date = 1, Exit_Date = 2, Days = 1, Type = Long, Entry = 100, Exit = 110,
       Return_pct = 10\<rparr>,
      \<lparr>Entry_Date = 2, Exit_Date = 3, Days = 1, Type = Short, Entry = 110, Exit = 105,
       Return_pct = 50 / 11\<rparr>,
      \<lparr>Entry_Date = 4, Exit_Date = 5, Days = 1, Type = Long, Entry = 120, Exit = 90,
       Return_pct = - 25\<rparr>]"
  by (simp add: trade_log_def log_run_def df_trades_rows upt_rec log_step_def log_init_def
      Let_def side_of_def prev_position_def close_trade_def)

theorem trades_ordered_witness:
  "sorted_wrt (<) (map Date df_trades) \<and>
   length (trade_log df_trades [1, - 1, 0, 1, 0]) = 3 \<and>
   Entry_Date (trade_log df_trades [1, - 1, 0, 1, 0] ! 1)
     < Exit_Date (trade_log df_trades [1, - 1, 0, 1, 0] ! 1) \<and>
   sorted_wrt (\<lambda>a b. Exit_Date a \<le> Entry_Date b) (trade_log df_trades [1, - 1, 0, 1, 0])"
proof -
  have h: "sorted_wrt (<) (map Date df_trades)" by (simp add: df_trades_rows)
  from trades_ordered[OF h, of "[1, - 1, 0, 1, 0]"] h show ?thesis
    by (simp add: trade_log_example)
qed

subsection \<open>Reversals\<close>

lemma side_of_sgn:
  "x \<noteq> 0 \<Longrightarrow> y \<noteq> 0 \<Longrightarrow> (side_of x = side_of y) = (sgn x = sgn y)"
  by (auto simp: side_of_def sgn_real_def)

lemma in_position_run:
  "(in_position (log_run df pos (Suc n)) = None) = (pos ! n = 0) \<and>
   (\<forall>e. in_position (log_run df pos (Suc n)) = Some e \<longrightarrow> position_type e = side_of (pos ! n))"
proof (induction n)
  case 0
  show ?case
    by (simp add: log_run_Suc log_run_0 log_init_def log_step_def Let_def)
next
  case (Suc n)
  let ?st = "log_run df pos (Suc n)"
  have prev: "prev_position pos (Suc n) = pos ! n" by (simp add: prev_position_def)
  show ?case
  proof (cases "in_position ?st")
    case None
    then show ?thesis
      by (simp add: log_run_Suc[of df pos "Suc n"] log_step_def Let_def)
  next
    case (Some e)
    with Suc.IH have e: "pos ! n \<noteq> 0" "position_type e = side_of (pos ! n)" by auto
    show ?thesis
    proof (cases "pos ! Suc n = 0 \<or> sgn (pos ! Suc n) \<noteq> sgn (pos ! n)")
      case True
      with Some prev show ?thesis
        by (simp add: log_run_Suc[of df pos "Suc n"] log_step_def Let_def)
    next
      case False
      then have "pos ! Suc n \<noteq> 0" "sgn (pos ! Suc n) = sgn (pos ! n)" by simp_all
      moreover from this e(1) have "side_of (pos ! Suc n) = side_of (pos ! n)"
        by (simp add: side_of_sgn)
      ultimately show ?thesis using Some prev e(2)
        by (simp add: log_run_Suc[of df pos "Suc n"] log_step_def Let_def)
    qed
  qed
qed

lemma trades_step:
  "trades (log_step df pos n st) = trades st \<or>
   (\<exists>e. in_position st = Some e \<and>
        trades (log_step df pos n st)
          = trades st @ [close_trade e (Close (df ! n)) (Date (df ! n))])"
  by (cases "in_position st") (auto simp: log_step_def Let_def)

lemma log_step_hold:
  assumes "in_position st = Some e" "pos ! j \<noteq> 0" "sgn (pos ! j) = sgn (prev_position pos j)"
  shows "log_step df pos j st = st"
  using assms by (simp add: log_step_def Let_def)

lemma log_step_close:
  assumes "in_position st = Some e" "pos ! j = 0 \<or> sgn (pos ! j) \<noteq> sgn (prev_position pos j)"
  shows "trades (log_step df pos j st) = trades st @ [close_trade e (Close (df ! j)) (Date (df ! j))]"
  using assms by (auto simp: log_step_def Let_def)

lemma log_run_hold:
  assumes "in_position (log_run df pos n) = Some e" and "0 < n" and "n \<le> m"
    and "\<forall>j. n \<le> j \<and> j < m \<longrightarrow> pos ! j \<noteq> 0 \<and> sgn (pos ! j) = sgn (pos ! (j - 1))"
  shows "log_run df pos m = log_run df pos n"
  using assms(3,4)
proof (induction m rule: dec_induct)
  case base
  show ?case by simp
next
  case (step m)
  then have eq: "log_run df pos m = log_run df pos n" by simp
  from step.hyps assms(2) have "0 < m" by simp
  then have prev: "prev_position pos m = pos ! (m - 1)" by (simp add: prev_position_def)
  from step.prems step.hyps have "pos ! m \<noteq> 0" "sgn (pos ! m) = sgn (pos ! (m - 1))" by simp_all
  with prev assms(1) eq have "log_step df pos m (log_run df pos m) = log_run df pos m"
    by (intro log_step_hold[of _ e]) simp_all
  with eq show ?case by (simp add: log_run_Suc)
qed

lemma trades_extend:
  "n \<le> m \<Longrightarrow> \<exists>ext. trades (log_run df pos m) = trades (log_run df pos n) @ ext"
proof (induction m rule: dec_induct)
  case base
  show ?case by simp
next
  case (step m)
  then obtain ext where e: "trades (log_run df pos m) = trades (log_run df pos n) @ ext" by blast
  from trades_step[of df pos m "log_run df pos m"]
  obtain x where "trades (log_step df pos m (log_run df pos m)) = trades (log_run df pos m) @ x"
    by auto
  with e show ?case by (simp add: log_run_Suc)
qed

text \<open>
  Claim C8, amended. When the position on row \<open>i\<close> and on the row before are both not 0
  and of opposite signs, the loop appends one trade, closed at the date and the close of
  row \<open>i\<close> and of the side of the row before, and opens an entry of the opposite side
  at the same date and price. If no later row closes that entry (every later position is
  not 0 and has the sign of the row before it), the ledger ends with the first trade and
  the entry is dropped. If row \<open>j\<close> is the first later row that closes it (a position
  of 0 or another change of sign), the next trade of the ledger is the reopened one:
  entered at the exit date and exit price of the first, of the opposite side, and closed
  at the date and the close of row \<open>j\<close>.
\<close>

theorem reversal_closes_and_reopens:
  assumes "0 < i" and "i < length df"
    and "pos ! (i - 1) \<noteq> 0" and "pos ! i \<noteq> 0" and "sgn (pos ! i) \<noteq> sgn (pos ! (i - 1))"
  shows "\<exists>old.
           trades (log_run df pos (Suc i)) = trades (log_run df pos i) @ [old] \<and>
           Exit_Date old = Date (df ! i) \<and> Exit old = Close (df ! i) \<and>
           Type old = side_of (pos ! (i - 1)) \<and>
           in_position (log_run df pos (Suc i)) =
             Some \<lparr>entry_price = Close (df ! i), entry_date = Date (df ! i),
                   position_type = side_of (pos ! i)\<rparr> \<and>
           side_of (pos ! i) \<noteq> side_of (pos ! (i - 1)) \<and>
           ((\<forall>j. i < j \<and> j < length df \<longrightarrow>
                 pos ! j \<noteq> 0 \<and> sgn (pos ! j) = sgn (pos ! (j - 1))) \<longrightarrow>
              trade_log df pos = trades (log_run df pos i) @ [old]) \<and>
           (\<forall>j. i < j \<and> j < length df \<and>
                (pos ! j = 0 \<or> sgn (pos ! j) \<noteq> sgn (pos ! (j - 1))) \<and>
                (\<forall>m. i < m \<and> m < j \<longrightarrow>
                   pos ! m \<noteq> 0 \<and> sgn (pos ! m) = sgn (pos ! (m - 1))) \<longrightarrow>
              (\<exists>new rest.
                 trade_log df pos = trades (log_run df pos i) @ old # new # rest \<and>
                 Entry new = Exit old \<and> Entry_Date new = Exit_Date old \<and>
                 Type new = side_of (pos ! i) \<and> Type new \<noteq> Type old \<and>
                 Exit new = Close (df ! j) \<and> Exit_Date new = Date (df ! j)))"
proof -
  from assms(1) obtain k where k: "i = Suc k" by (cases i) auto
  let ?st = "log_run df pos i"
  let ?st' = "log_run df pos (Suc i)"
  let ?e' = "\<lparr>entry_price = Close (df ! i), entry_date = Date (df ! i),
              position_type = side_of (pos ! i)\<rparr>"
  from in_position_run[of df pos k] assms(3) k
  obtain e where e: "in_position ?st = Some e" "position_type e = side_of (pos ! (i - 1))"
    by auto
  let ?old = "close_trade e (Close (df ! i)) (Date (df ! i))"
  have prev: "prev_position pos i = pos ! (i - 1)"
    using assms(1) by (simp add: prev_position_def)
  have tr: "trades ?st' = trades ?st @ [?old]"
    and ip: "in_position ?st' = Some ?e'"
    using e(1) assms(4,5) prev by (simp_all add: log_run_Suc log_step_def Let_def)
  have old: "Exit_Date ?old = Date (df ! i)" "Exit ?old = Close (df ! i)"
    "Type ?old = side_of (pos ! (i - 1))"
    using e(2) by (simp_all add: close_trade_def)
  have sides: "side_of (pos ! i) \<noteq> side_of (pos ! (i - 1))"
    using assms(3,4,5) by (simp add: side_of_sgn)
  have stays: "trade_log df pos = trades ?st @ [?old]"
    if h: "\<forall>j. i < j \<and> j < length df \<longrightarrow> pos ! j \<noteq> 0 \<and> sgn (pos ! j) = sgn (pos ! (j - 1))"
  proof -
    from h have "\<forall>j. Suc i \<le> j \<and> j < length df \<longrightarrow>
        pos ! j \<noteq> 0 \<and> sgn (pos ! j) = sgn (pos ! (j - 1))" by auto
    from log_run_hold[OF ip _ _ this] assms(2)
    have "log_run df pos (length df) = ?st'" by simp
    with tr show ?thesis by (simp add: trade_log_def)
  qed
  have closes: "\<exists>new rest.
         trade_log df pos = trades ?st @ ?old # new # rest \<and>
         Entry new = Exit ?old \<and> Entry_Date new = Exit_Date ?old \<and>
         Type new = side_of (pos ! i) \<and> Type new \<noteq> Type ?old \<and>
         Exit new = Close (df ! j) \<and> Exit_Date new = Date (df ! j)"
    if j: "i < j" "j < length df" "pos ! j = 0 \<or> sgn (pos ! j) \<noteq> sgn (pos ! (j - 1))"
      and h: "\<forall>m. i < m \<and> m < j \<longrightarrow> pos ! m \<noteq> 0 \<and> sgn (pos ! m) = sgn (pos ! (m - 1))"
    for j
  proof -
    let ?new = "close_trade ?e' (Close (df ! j)) (Date (df ! j))"
    from h have "\<forall>m. Suc i \<le> m \<and> m < j \<longrightarrow>
        pos ! m \<noteq> 0 \<and> sgn (pos ! m) = sgn (pos ! (m - 1))" by auto
    from log_run_hold[OF ip _ _ this] j(1)
    have eq: "log_run df pos j = ?st'" by simp
    from j(1) have pj: "prev_position pos j = pos ! (j - 1)" by (simp add: prev_position_def)
    from log_step_close[of "log_run df pos j" ?e' pos j df] eq ip j(3) pj
    have "trades (log_run df pos (Suc j)) = trades ?st' @ [?new]"
      by (simp add: log_run_Suc)
    moreover from j(2) have "Suc j \<le> length df" by simp
    from trades_extend[OF this, of df pos]
    obtain rest where "trade_log df pos = trades (log_run df pos (Suc j)) @ rest"
      by (auto simp: trade_log_def)
    ultimately have "trade_log df pos = trades ?st @ ?old # ?new # rest"
      using tr by simp
    moreover have "Entry ?new = Exit ?old" "Entry_Date ?new = Exit_Date ?old"
      "Type ?new = side_of (pos ! i)" "Type ?new \<noteq> Type ?old"
      "Exit ?new = Close (df ! j)" "Exit_Date ?new = Date (df ! j)"
      using sides e(2) by (simp_all add: close_trade_def)
    ultimately show ?thesis by blast
  qed
  from tr ip old sides stays closes show ?thesis by blast
qed

lemma reversal_example:
  "trade_log df_trades [0, 1, - 1, - 1, 0] =
     [\<lparr>Entry_Date = 2, Exit_Date = 3, Days = 1, Type = Long, Entry = 110, Exit = 105,
       Return_pct = - (50 / 11)\<rparr>,
      \<lparr>Entry_Date = 3, Exit_Date = 5, Days = 2, Type = Short, Entry = 105, Exit = 90,
       Return_pct = 100 / 7\<rparr>]"
  by (simp add: trade_log_def log_run_def df_trades_rows upt_rec log_step_def log_init_def
      Let_def side_of_def prev_position_def close_trade_def)

lemma reversal_open_example:
  "trade_log (take 3 df_trades) [0, 1, - 1] =
     [\<lparr>Entry_Date = 2, Exit_Date = 3, Days = 1, Type = Long, Entry = 110, Exit = 105,
       Return_pct = - (50 / 11)\<rparr>]"
  by (simp add: trade_log_def log_run_def df_trades_rows upt_rec log_step_def log_init_def
      Let_def side_of_def prev_position_def close_trade_def)

theorem reversal_closes_and_reopens_witness:
  "(0::nat) < 2 \<and> 2 < length df_trades \<and>
   [0, 1, - 1, - 1, 0::real] ! (2 - 1) \<noteq> 0 \<and> [0, 1, - 1, - 1, 0::real] ! 2 \<noteq> 0 \<and>
   sgn ([0, 1, - 1, - 1, 0::real] ! 2) \<noteq> sgn ([0, 1, - 1, - 1, 0::real] ! (2 - 1)) \<and>
   [0, 1, - 1, - 1, 0::real] ! 3 \<noteq> 0 \<and>
   sgn ([0, 1, - 1, - 1, 0::real] ! 3) = sgn ([0, 1, - 1, - 1, 0::real] ! 2) \<and>
   [0, 1, - 1, - 1, 0::real] ! 4 = 0 \<and>
   (\<exists>old new rest.
      trade_log df_trades [0, 1, - 1, - 1, 0]
        = trades (log_run df_trades [0, 1, - 1, - 1, 0] 2) @ old # new # rest \<and>
      Exit_Date old = Date (df_trades ! 2) \<and>
      Entry new = Exit old \<and> Entry_Date new = Exit_Date old \<and> Type new \<noteq> Type old \<and>
      Exit_Date new = Date (df_trades ! 4)) \<and>
   length (trade_log df_trades [0, 1, - 1, - 1, 0]) = 2 \<and>
   2 < length (take 3 df_trades) \<and>
   (\<exists>old. trade_log (take 3 df_trades) [0, 1, - 1]
            = trades (log_run (take 3 df_trades) [0, 1, - 1] 2) @ [old] \<and>
          Exit_Date old = Date (take 3 df_trades ! 2)) \<and>
   length (trade_log (take 3 df_trades) [0, 1, - 1]) = 1"
proof -
  let ?pos = "[0, 1, - 1, - 1, 0::real]"
  let ?short = "[0, 1, - 1::real]"
  have h1: "(0::nat) < 2" by simp
  have h2: "2 < length df_trades" by (simp add: df_trades_rows)
  have h3: "?pos ! (2 - 1) \<noteq> 0" by simp
  have h4: "?pos ! 2 \<noteq> 0" by simp
  have h5: "sgn (?pos ! 2) \<noteq> sgn (?pos ! (2 - 1))" by simp
  have hold: "?pos ! 3 \<noteq> 0" "sgn (?pos ! 3) = sgn (?pos ! 2)" by simp_all
  have close: "?pos ! 4 = 0" by simp
  have between: "\<forall>m. 2 < m \<and> m < 4 \<longrightarrow> ?pos ! m \<noteq> 0 \<and> sgn (?pos ! m) = sgn (?pos ! (m - 1))"
  proof (intro allI impI)
    fix m :: nat assume "2 < m \<and> m < 4"
    then have "m = 3" by arith
    then show "?pos ! m \<noteq> 0 \<and> sgn (?pos ! m) = sgn (?pos ! (m - 1))" by simp
  qed
  have j: "(2::nat) < 4 \<and> 4 < length df_trades \<and>
      (?pos ! 4 = 0 \<or> sgn (?pos ! 4) \<noteq> sgn (?pos ! (4 - 1)))"
    by (simp add: df_trades_rows)
  from reversal_closes_and_reopens[OF h1 h2 h3 h4 h5] j between
  have a: "\<exists>old new rest.
      trade_log df_trades ?pos = trades (log_run df_trades ?pos 2) @ old # new # rest \<and>
      Exit_Date old = Date (df_trades ! 2) \<and>
      Entry new = Exit old \<and> Entry_Date new = Exit_Date old \<and> Type new \<noteq> Type old \<and>
      Exit_Date new = Date (df_trades ! 4)"
    by blast
  have g2: "2 < length (take 3 df_trades)" by (simp add: df_trades_rows)
  have g3: "?short ! (2 - 1) \<noteq> 0" by simp
  have g4: "?short ! 2 \<noteq> 0" by simp
  have g5: "sgn (?short ! 2) \<noteq> sgn (?short ! (2 - 1))" by simp
  have none: "\<forall>j. 2 < j \<and> j < length (take 3 df_trades) \<longrightarrow>
      ?short ! j \<noteq> 0 \<and> sgn (?short ! j) = sgn (?short ! (j - 1))"
    by (simp add: df_trades_rows)
  from reversal_closes_and_reopens[OF h1 g2 g3 g4 g5] none
  have b: "\<exists>old. trade_log (take 3 df_trades) ?short
            = trades (log_run (take 3 df_trades) ?short 2) @ [old] \<and>
          Exit_Date old = Date (take 3 df_trades ! 2)"
    by blast
  have n: "length (trade_log df_trades ?pos) = 2"
    "length (trade_log (take 3 df_trades) ?short) = 1"
    by (simp_all add: reversal_example reversal_open_example)
  from h1 h2 h3 h4 h5 hold close a n g2 b show ?thesis by blast
qed

text \<open>
  Claim C8, as stated, on the first three rows of the trade example with the positions
  0, 1, -1: the sign reverses between adjacent dates without passing through 0, and the
  ledger holds one trade, not two, since the short entry is still open at the last row.
\<close>

theorem reversal_left_open:
  "[0, 1, - 1::real] ! 1 \<noteq> 0 \<and> [0, 1, - 1::real] ! 2 \<noteq> 0 \<and>
   sgn ([0, 1, - 1::real] ! 2) \<noteq> sgn ([0, 1, - 1::real] ! 1) \<and>
   trade_log (take 3 df_trades) [0, 1, - 1] =
     [\<lparr>Entry_Date = 2, Exit_Date = 3, Days = 1, Type = Long, Entry = 110, Exit = 105,
       Return_pct = - (50 / 11)\<rparr>]"
  using reversal_open_example by simp

subsection \<open>What the first rows of a column depend on\<close>

lemma take_ffill_zero: "take n (ffill_zero h ss) = ffill_zero h (take n ss)"
proof (induction ss arbitrary: h n)
  case Nil
  show ?case by simp
next
  case (Cons s ss)
  show ?case by (cases n) (simp_all add: Let_def Cons.IH)
qed

lemma take_position_col:
  "take n (position_col ze zx dyn zs) = position_col ze zx dyn (take n zs)"
  by (simp add: position_col_def Let_def held_col_def signal_col_def take_map take_zip
      take_ffill_zero)

lemma take_shift_from: "take n (shift_from p xs) = shift_from p (take n xs)"
proof (induction xs arbitrary: p n)
  case Nil
  show ?case by simp
next
  case (Cons x xs)
  show ?case by (cases n) (simp_all add: Cons.IH)
qed

lemma take_diff_from: "take n (diff_from p xs) = diff_from p (take n xs)"
proof (induction xs arbitrary: p n)
  case Nil
  show ?case by simp
next
  case (Cons x xs)
  show ?case by (cases n) (simp_all add: Cons.IH)
qed

lemma take_diff_fill: "take n (diff_fill xs) = diff_fill (take n xs)"
proof (cases xs)
  case Nil
  then show ?thesis by (simp add: diff_fill_def)
next
  case (Cons x rest)
  then show ?thesis by (cases n) (simp_all add: diff_fill_def take_diff_from)
qed

lemma take_cumprod_from: "take n (cumprod_from a xs) = cumprod_from a (take n xs)"
proof (induction xs arbitrary: a n)
  case Nil
  show ?case by simp
next
  case (Cons x xs)
  show ?case by (cases n) (simp_all add: Cons.IH)
qed

lemma take_curve_of: "take n (curve_of rs) = curve_of (take n rs)"
  by (simp add: curve_of_def cumprod_def take_map take_cumprod_from)

lemma take_strategy_net_col:
  "take n (strategy_net_col pos rets) = strategy_net_col (take n pos) (take n rets)"
  by (simp add: strategy_net_col_def net_with_lag_def net_of_def strategy_clipped_col_def
      trade_cost_col_def shift_fill_def take_map take_zip take_shift_from take_diff_fill)

lemma take_equity_curve_col:
  "take n (equity_curve_col pos rets) = equity_curve_col (take n pos) (take n rets)"
  by (simp add: equity_curve_col_def take_curve_of take_strategy_net_col)

lemma take_ewm_mean_from: "take n (ewm_mean_from a m xs) = ewm_mean_from a m (take n xs)"
proof (induction xs arbitrary: m n)
  case Nil
  show ?case by simp
next
  case (Cons x xs)
  show ?case by (cases n) (simp_all add: Let_def Cons.IH)
qed

lemma take_ewm_mean: "take n (ewm_mean a xs) = ewm_mean a (take n xs)"
proof (cases xs)
  case Nil
  then show ?thesis by (simp add: ewm_mean_def)
next
  case (Cons x rest)
  then show ?thesis by (cases n) (simp_all add: ewm_mean_def take_ewm_mean_from)
qed

lemma take_ewm_var_from:
  "take n (ewm_var_from a m c s xs) = ewm_var_from a m c s (take n xs)"
proof (induction xs arbitrary: m c s n)
  case Nil
  show ?case by simp
next
  case (Cons x xs)
  show ?case by (cases n) (simp_all add: Let_def Cons.IH)
qed

lemma take_ewm_std: "take n (ewm_std a xs) = ewm_std a (take n xs)"
proof (cases xs)
  case Nil
  then show ?thesis by (simp add: ewm_std_def ewm_var_def)
next
  case (Cons x rest)
  then show ?thesis
    by (cases n) (simp_all add: ewm_std_def ewm_var_def take_map take_ewm_var_from)
qed

lemma take_z_score_raw:
  "take n (z_score_raw cs ms ss) = z_score_raw (take n cs) (take n ms) (take n ss)"
  by (simp add: z_score_raw_def take_map take_zip)

lemma take_z_score_col_unfiltered:
  "take n (z_score_col df w False) = z_score_col (take n df) w False"
  by (simp add: z_score_col_def Let_def take_z_score_raw take_ewm_mean take_ewm_std take_map)

lemma take_equity_curve_unfiltered:
  "take n (equity_curve (backtest_data df w ze zx dyn False))
     = equity_curve (backtest_data (take n df) w ze zx dyn False)"
  by (simp add: backtest_data_def Let_def take_equity_curve_col take_position_col
      take_z_score_col_unfiltered take_map)

text \<open>
  Claim C2, amended (for a positive entry threshold). Two frames that agree on their
  first \<open>n\<close> rows have the same first \<open>n\<close> equity values when the volatility filter
  is off, and for any two position columns that agree on their first \<open>n\<close> entries the
  simulated equity agrees on its first \<open>n\<close> values: the equity of a day is decided by
  the returns and the positions up to and including that day (the position of the day
  itself enters through the trading cost).
\<close>

theorem equity_prefix:
  assumes "0 < ze" and "take n df = take n df'"
  shows "take n (equity_curve (backtest_data df w ze zx dyn False))
           = take n (equity_curve (backtest_data df' w ze zx dyn False)) \<and>
         (\<forall>pos pos'. take n pos = take n pos' \<longrightarrow>
            take n (equity_curve_col pos (map returns df))
              = take n (equity_curve_col pos' (map returns df')))"
proof -
  from assms(2) have "take n (map returns df) = take n (map returns df')"
    by (simp add: take_map)
  then show ?thesis
    using assms(2) by (simp add: take_equity_curve_unfiltered take_equity_curve_col)
qed

subsection \<open>The volatility filter looks ahead\<close>

text \<open>
  On the tenth row the z-score is about -1.99 (window 10): the exponentially weighted
  standard deviation is about 4.12 and the close is 8.18 below the mean. The ten-day
  volatility of that row is about 0.0883; the volatility of the eleventh row is about
  0.0316 after an unchanged close and about 0.1578 after the fall.
\<close>

lemma df_calm_end_rows:
  "df_calm_end =
     [\<lparr>Date = 1, Close = 100, returns = 1 / 4\<rparr>, \<lparr>Date = 2, Close = 100, returns = 0\<rparr>,
      \<lparr>Date = 3, Close = 100, returns = 0\<rparr>, \<lparr>Date = 4, Close = 100, returns = 0\<rparr>,
      \<lparr>Date = 5, Close = 100, returns = 0\<rparr>, \<lparr>Date = 6, Close = 100, returns = 0\<rparr>,
      \<lparr>Date = 7, Close = 100, returns = 0\<rparr>, \<lparr>Date = 8, Close = 100, returns = 0\<rparr>,
      \<lparr>Date = 9, Close = 100, returns = 0\<rparr>,
      \<lparr>Date = 10, Close = 90, returns = - (1 / 10)\<rparr>,
      \<lparr>Date = 11, Close = 90, returns = 0\<rparr>]"
  by (simp add: df_calm_end_def load_df_def)

lemma df_crash_end_rows:
  "df_crash_end =
     [\<lparr>Date = 1, Close = 100, returns = 1 / 4\<rparr>, \<lparr>Date = 2, Close = 100, returns = 0\<rparr>,
      \<lparr>Date = 3, Close = 100, returns = 0\<rparr>, \<lparr>Date = 4, Close = 100, returns = 0\<rparr>,
      \<lparr>Date = 5, Close = 100, returns = 0\<rparr>, \<lparr>Date = 6, Close = 100, returns = 0\<rparr>,
      \<lparr>Date = 7, Close = 100, returns = 0\<rparr>, \<lparr>Date = 8, Close = 100, returns = 0\<rparr>,
      \<lparr>Date = 9, Close = 100, returns = 0\<rparr>,
      \<lparr>Date = 10, Close = 90, returns = - (1 / 10)\<rparr>,
      \<lparr>Date = 11, Close = 45, returns = - (1 / 2)\<rparr>]"
  by (simp add: df_crash_end_def load_df_def)

lemma same_first_ten: "take 10 df_calm_end = take 10 df_crash_end"
  by (simp add: df_calm_end_rows df_crash_end_rows)

lemma z_first_ten:
  "z_score_col (take 10 df_calm_end) 10 False =
     [0, 0, 0, 0, 0, 0, 0, 0, 0,
      - (90 / (11 * sqrt (2297486493178608050 / 135245566954880809)))]"
  by (simp add: df_calm_end_rows ewm_alpha_def ewm_var_def ewm_std_def ewm_mean_def
      z_score_col_def z_score_raw_def Let_def power2_eq_square)

lemma z_day_ten:
  "- (90 / (11 * sqrt (2297486493178608050 / 135245566954880809))) < - 1"
proof -
  have "sqrt (2297486493178608050 / 135245566954880809) < 5"
    by (rule real_less_lsqrt) simp_all
  moreover have "0 < sqrt (2297486493178608050 / 135245566954880809)" by simp
  ultimately have "11 * sqrt (2297486493178608050 / 135245566954880809) < 90" by linarith
  then show ?thesis by (simp add: pos_less_divide_eq)
qed

lemma signal_day_ten:
  "signal_of 1 (3 / 10) (- (90 / (11 * sqrt (2297486493178608050 / 135245566954880809)))) = 1"
proof -
  let ?z = "- (90 / (11 * sqrt (2297486493178608050 / 135245566954880809)))"
  have a: "?z < - 1" by (rule z_day_ten)
  then have b: "\<not> ?z > 1" and c: "\<not> \<bar>?z\<bar> < 3 / 10" by linarith+
  from a b c show ?thesis unfolding signal_of_def Let_def by simp
qed

lemma volatility_calm_end:
  "volatility (map returns df_calm_end) =
     [None, None, None, None, None, None, None, None, None,
      Some (sqrt (281 / 36000)), Some (sqrt (1 / 1000))]"
  by (simp add: df_calm_end_rows volatility_def rolling_std_def upt_rec sample_var_def
      mean_of_def power2_eq_square)

lemma volatility_crash_end:
  "volatility (map returns df_crash_end) =
     [None, None, None, None, None, None, None, None, None,
      Some (sqrt (281 / 36000)), Some (sqrt (28 / 1125))]"
  by (simp add: df_crash_end_rows volatility_def rolling_std_def upt_rec sample_var_def
      mean_of_def power2_eq_square)

lemma threshold_calm_end:
  "vol_threshold (map returns df_calm_end) =
     Some (sqrt (1 / 1000) + (9 / 10) * (sqrt (281 / 36000) - sqrt (1 / 1000)))"
  by (simp add: vol_threshold_def volatility_calm_end quantile_def List.map_filter_def)

lemma threshold_crash_end:
  "vol_threshold (map returns df_crash_end) =
     Some (sqrt (281 / 36000) + (9 / 10) * (sqrt (28 / 1125) - sqrt (281 / 36000)))"
  by (simp add: vol_threshold_def volatility_crash_end quantile_def List.map_filter_def)

lemma interpolate_between:
  "(a::real) < b \<Longrightarrow> a < a + (9 / 10) * (b - a) \<and> a + (9 / 10) * (b - a) < b"
  by argo

lemma filtered_calm_end:
  "gt_nan (Some (sqrt (281 / 36000))) (vol_threshold (map returns df_calm_end))"
proof -
  have "sqrt (1 / 1000) < sqrt (281 / 36000)" by simp
  from interpolate_between[OF this] show ?thesis by (simp add: threshold_calm_end)
qed

lemma unfiltered_crash_end:
  "\<not> gt_nan (Some (sqrt (281 / 36000))) (vol_threshold (map returns df_crash_end))"
proof -
  have "sqrt (281 / 36000) < sqrt (28 / 1125)" by simp
  from interpolate_between[OF this] show ?thesis by (simp add: threshold_crash_end)
qed

lemma take_vol_filter:
  "take n (vol_filter rets zs) =
     map (\<lambda>(v, z). if gt_nan v (vol_threshold rets) then 0 else z)
         (zip (take n (volatility rets)) (take n zs))"
  by (simp add: vol_filter_def take_map take_zip)

lemma z_filtered_calm_end:
  "take 10 (z_score_col df_calm_end 10 True) = [0, 0, 0, 0, 0, 0, 0, 0, 0, 0]"
proof -
  have "take 10 (z_score_col df_calm_end 10 True)
          = take 10 (vol_filter (map returns df_calm_end) (z_score_col df_calm_end 10 False))"
    by (simp add: z_score_col_def Let_def)
  also have "\<dots> = [0, 0, 0, 0, 0, 0, 0, 0, 0, 0]"
    unfolding take_vol_filter take_z_score_col_unfiltered z_first_ten volatility_calm_end
    using filtered_calm_end by simp
  finally show ?thesis .
qed

lemma z_filtered_crash_end:
  "take 10 (z_score_col df_crash_end 10 True) =
     [0, 0, 0, 0, 0, 0, 0, 0, 0,
      - (90 / (11 * sqrt (2297486493178608050 / 135245566954880809)))]"
proof -
  have "take 10 (z_score_col df_crash_end 10 True)
          = take 10 (vol_filter (map returns df_crash_end) (z_score_col df_crash_end 10 False))"
    by (simp add: z_score_col_def Let_def)
  also have "\<dots> = [0, 0, 0, 0, 0, 0, 0, 0, 0,
      - (90 / (11 * sqrt (2297486493178608050 / 135245566954880809)))]"
    unfolding take_vol_filter take_z_score_col_unfiltered same_first_ten[symmetric] z_first_ten
      volatility_crash_end
    using unfiltered_crash_end by simp
  finally show ?thesis .
qed

lemma position_calm_end:
  "take 10 (position (backtest_data df_calm_end 10 1 (3 / 10) False True))
     = [0, 0, 0, 0, 0, 0, 0, 0, 0, 0]"
proof -
  have "take 10 (position (backtest_data df_calm_end 10 1 (3 / 10) False True))
          = position_col 1 (3 / 10) False (take 10 (z_score_col df_calm_end 10 True))"
    by (simp add: backtest_data_def Let_def take_position_col)
  also have "\<dots> = [0, 0, 0, 0, 0, 0, 0, 0, 0, 0]"
    unfolding z_filtered_calm_end
    by (simp add: position_col_def held_col_def signal_col_def signal_of_def Let_def)
  finally show ?thesis .
qed

lemma position_crash_end:
  "take 10 (position (backtest_data df_crash_end 10 1 (3 / 10) False True))
     = [0, 0, 0, 0, 0, 0, 0, 0, 0, 1]"
proof -
  have z0: "signal_of 1 (3 / 10) 0 = 0" by (simp add: signal_of_def Let_def)
  have "take 10 (position (backtest_data df_crash_end 10 1 (3 / 10) False True))
          = position_col 1 (3 / 10) False (take 10 (z_score_col df_crash_end 10 True))"
    by (simp add: backtest_data_def Let_def take_position_col)
  also have "\<dots> = [0, 0, 0, 0, 0, 0, 0, 0, 0, 1]"
    unfolding z_filtered_crash_end
    by (simp add: position_col_def held_col_def signal_col_def signal_day_ten z0 Let_def)
  finally show ?thesis .
qed

lemma equity_nth_take:
  assumes t: "t < n"
  shows "equity_curve (backtest_data df w ze zx dyn fv) ! t
     = equity_curve_col (take n (position (backtest_data df w ze zx dyn fv)))
                        (take n (map returns df)) ! t"
proof -
  have "equity_curve (backtest_data df w ze zx dyn fv) ! t
          = take n (equity_curve (backtest_data df w ze zx dyn fv)) ! t"
    using t by simp
  also have "take n (equity_curve (backtest_data df w ze zx dyn fv))
          = equity_curve_col (take n (position (backtest_data df w ze zx dyn fv)))
                        (take n (map returns df))"
    by (simp add: backtest_data_def Let_def take_equity_curve_col)
  finally show ?thesis .
qed

text \<open>
  Claim C2, as stated, with window 10, entry threshold 1, exit threshold 3/10 and the
  volatility filter on. The two frames have the same first ten rows, and the positions
  of the first nine rows are the same, yet the equity of the tenth row is 10000 in one
  run and 9990 in the other: the return of the eleventh row moves the quantile of the
  volatility, which decides whether the z-score of the tenth row is set to 0, and so
  whether a position is opened (and paid for) on the tenth row.
\<close>

theorem future_return_changes_equity:
  "take 10 df_calm_end = take 10 df_crash_end \<and>
   take 9 (position (backtest_data df_calm_end 10 1 (3 / 10) False True))
     = take 9 (position (backtest_data df_crash_end 10 1 (3 / 10) False True)) \<and>
   equity_curve (backtest_data df_calm_end 10 1 (3 / 10) False True) ! 9 = 10000 \<and>
   equity_curve (backtest_data df_crash_end 10 1 (3 / 10) False True) ! 9 = 9990"
proof -
  have p: "take 9 (position (backtest_data df_calm_end 10 1 (3 / 10) False True))
     = take 9 (position (backtest_data df_crash_end 10 1 (3 / 10) False True))"
  proof -
    have "take 9 (take 10 (position (backtest_data df_calm_end 10 1 (3 / 10) False True)))
        = take 9 (take 10 (position (backtest_data df_crash_end 10 1 (3 / 10) False True)))"
      unfolding position_calm_end position_crash_end by simp
    then show ?thesis by simp
  qed
  have a: "equity_curve (backtest_data df_calm_end 10 1 (3 / 10) False True) ! 9 = 10000"
    unfolding equity_nth_take[of 9 10, simplified] position_calm_end
    by (simp add: df_calm_end_rows equity_curve_col_def curve_of_def cumprod_def
        strategy_net_col_def net_with_lag_def net_of_def strategy_clipped_col_def
        trade_cost_col_def shift_fill_def diff_fill_def clip_def stop_loss_def take_profit_def
        cost_per_trade_def initial_capital_def)
  have b: "equity_curve (backtest_data df_crash_end 10 1 (3 / 10) False True) ! 9 = 9990"
    unfolding equity_nth_take[of 9 10, simplified] position_crash_end
    by (simp add: df_crash_end_rows equity_curve_col_def curve_of_def cumprod_def
        strategy_net_col_def net_with_lag_def net_of_def strategy_clipped_col_def
        trade_cost_col_def shift_fill_def diff_fill_def clip_def stop_loss_def take_profit_def
        cost_per_trade_def initial_capital_def)
  from same_first_ten p a b show ?thesis by simp
qed

theorem equity_prefix_witness:
  "(0::real) < 1 \<and> take 10 df_calm_end = take 10 df_crash_end \<and>
   take 10 (equity_curve (backtest_data df_calm_end 10 1 (3 / 10) False False))
     = take 10 (equity_curve (backtest_data df_crash_end 10 1 (3 / 10) False False)) \<and>
   take 10 [0, 0, 0, 0, 0, 0, 0, 0, 0, 1, 1::real] = take 10 [0, 0, 0, 0, 0, 0, 0, 0, 0, 1, 0] \<and>
   take 10 (equity_curve_col [0, 0, 0, 0, 0, 0, 0, 0, 0, 1, 1] (map returns df_calm_end))
     = take 10 (equity_curve_col [0, 0, 0, 0, 0, 0, 0, 0, 0, 1, 0] (map returns df_crash_end))"
proof -
  have z: "(0::real) < 1" by simp
  have h: "take 10 [0, 0, 0, 0, 0, 0, 0, 0, 0, 1, 1::real]
             = take 10 [0, 0, 0, 0, 0, 0, 0, 0, 0, 1, 0]"
    by simp
  from equity_prefix[OF z same_first_ten, of 10 "3 / 10" False] h same_first_ten z
  show ?thesis by blast
qed

end
